theory Spec2Isabelle
  imports Main
begin

section \<open>Go primitives used by the program\<close>

text \<open>
  Go's \<^verbatim>\<open>int\<close> is a 64-bit two's-complement integer on the platforms the program
  targets. Values are modelled as \<^typ>\<open>int\<close>; \<open>wrap64\<close> is the wrap-around of an
  arithmetic result and is written out where a caller-supplied amount enters a sum.
  A Go \<^verbatim>\<open>error\<close> is modelled by its message (what \<^verbatim>\<open>err.Error()\<close> returns), since
  the program itself inspects error messages; \<open>None\<close> is the \<^verbatim>\<open>nil\<close> error.
  A Go \<^verbatim>\<open>string\<close> is a byte sequence, here a \<^typ>\<open>string\<close>.
\<close>

type_synonym error = string

definition wrap64 :: "int \<Rightarrow> int" where
  "wrap64 x = (x + 2 ^ 63) mod 2 ^ 64 - 2 ^ 63"

text \<open>\<^verbatim>\<open>fmt.Sprintf("%d", n)\<close>: decimal digits, with a minus sign for negative values.\<close>

fun itoa_nat :: "nat \<Rightarrow> string" where
  "itoa_nat n =
     (if n < 10 then [''0123456789'' ! n]
      else itoa_nat (n div 10) @ [''0123456789'' ! (n mod 10)])"

declare itoa_nat.simps [simp del]

definition itoa :: "int \<Rightarrow> string" where
  "itoa n = (if n < 0 then CHR ''-'' # itoa_nat (nat (- n)) else itoa_nat (nat n))"

section \<open>internal/context: token counter and conversation history\<close>

record TokenCounter =
  PromptTokens :: int
  CompletionTokens :: int
  TotalTokens :: int
  MaxTokens :: int

definition NewTokenCounter :: "int \<Rightarrow> TokenCounter" where
  "NewTokenCounter maxTokens =
     \<lparr>PromptTokens = 0, CompletionTokens = 0, TotalTokens = 0, MaxTokens = maxTokens\<rparr>"

definition CanAddTokens :: "TokenCounter \<Rightarrow> int \<Rightarrow> bool" where
  "CanAddTokens tc needed \<longleftrightarrow> wrap64 (TotalTokens tc + needed) \<le> MaxTokens tc"

definition RemainingTokens :: "TokenCounter \<Rightarrow> int" where
  "RemainingTokens tc = wrap64 (MaxTokens tc - TotalTokens tc)"

text \<open>
  \<^verbatim>\<open>Add\<close> has a pointer receiver: it updates the three counters first and only then
  compares the new total with the maximum. The model returns the updated counter
  together with the error.
\<close>

definition Add :: "TokenCounter \<Rightarrow> int \<Rightarrow> int \<Rightarrow> TokenCounter \<times> error option" where
  "Add tc prompt completion =
     (let p = wrap64 (PromptTokens tc + prompt);
          c = wrap64 (CompletionTokens tc + completion);
          t = wrap64 (p + c);
          tc' = tc\<lparr>PromptTokens := p, CompletionTokens := c, TotalTokens := t\<rparr>
      in if t > MaxTokens tc
         then (tc', Some (''token limit exceeded: '' @ itoa t @ ''/'' @ itoa (MaxTokens tc)))
         else (tc', None))"

record Message =
  Role :: string
  Content :: string

record ContextManager =
  messages :: "Message list"
  tokenCounter :: TokenCounter
  maxHistorySize :: int

definition NewContextManager :: "int \<Rightarrow> int \<Rightarrow> ContextManager" where
  "NewContextManager maxTokens maxHist =
     \<lparr>messages = [], tokenCounter = NewTokenCounter maxTokens, maxHistorySize = maxHist\<rparr>"

text \<open>
  The pruning loop of \<^verbatim>\<open>AddMessage\<close>: it walks the extended slice with its index \<open>i\<close>
  and keeps the entries with \<^verbatim>\<open>i >= len(cm.messages) - cm.maxHistorySize\<close>. \<open>n\<close> is the
  length of the extended slice and \<open>k\<close> the bound. A slice length is non-negative and
  far below \<open>2 ^ 63\<close>, so the subtraction is the mathematical one unless the bound is
  near the least 64-bit integer.
\<close>

fun keep_recent :: "int \<Rightarrow> int \<Rightarrow> nat \<Rightarrow> Message list \<Rightarrow> Message list" where
  "keep_recent n k i [] = []"
| "keep_recent n k i (m # ms) =
     (if int i \<ge> n - k then m # keep_recent n k (Suc i) ms else keep_recent n k (Suc i) ms)"

definition AddMessage :: "ContextManager \<Rightarrow> string \<Rightarrow> string \<Rightarrow> ContextManager" where
  "AddMessage cm role content =
     (let ms = messages cm @ [\<lparr>Role = role, Content = content\<rparr>]
      in if int (length ms) > maxHistorySize cm
         then cm\<lparr>messages := keep_recent (int (length ms)) (maxHistorySize cm) 0 ms\<rparr>
         else cm\<lparr>messages := ms\<rparr>)"

definition GetMessages :: "ContextManager \<Rightarrow> Message list" where
  "GetMessages cm = messages cm"

definition ClearContext :: "ContextManager \<Rightarrow> ContextManager" where
  "ClearContext cm = cm\<lparr>messages := []\<rparr>"

definition ResetTokenCounter :: "ContextManager \<Rightarrow> ContextManager" where
  "ResetTokenCounter cm =
     cm\<lparr>tokenCounter :=
          (tokenCounter cm)\<lparr>PromptTokens := 0, CompletionTokens := 0, TotalTokens := 0\<rparr>\<rparr>"

definition RemoveOldest :: "ContextManager \<Rightarrow> int \<Rightarrow> ContextManager" where
  "RemoveOldest cm count =
     (if count \<le> 0 \<or> length (messages cm) = 0 then cm
      else if count \<ge> int (length (messages cm)) then cm\<lparr>messages := []\<rparr>
      else cm\<lparr>messages := drop (nat count) (messages cm)\<rparr>)"

text \<open>\<^verbatim>\<open>(len(text) + 3) / 4\<close>; the operands are non-negative, so Go's truncating
  division is \<open>div\<close>.\<close>

definition EstimateTokens :: "string \<Rightarrow> int" where
  "EstimateTokens text = (int (length text) + 3) div 4"

text \<open>A run of \<^verbatim>\<open>AddMessage\<close> calls, oldest first, each given as (role, content).\<close>

definition add_messages :: "ContextManager \<Rightarrow> (string \<times> string) list \<Rightarrow> ContextManager" where
  "add_messages cm xs = foldl (\<lambda>c (r, t). AddMessage c r t) cm xs"

definition entry :: "string \<times> string \<Rightarrow> Message" where
  "entry x = \<lparr>Role = fst x, Content = snd x\<rparr>"

section \<open>Go string functions\<close>

text \<open>
  The functions of Go's \<^verbatim>\<open>strings\<close> and \<^verbatim>\<open>strconv\<close> packages that the program calls,
  on byte strings. White space and letter case are those of ASCII; the Unicode white
  space and case mappings of the Go library beyond ASCII are not modelled.
\<close>

definition isSpace :: "char \<Rightarrow> bool" where
  "isSpace c \<longleftrightarrow> c \<in> set [CHR 0x09, CHR 0x0A, CHR 0x0B, CHR 0x0C, CHR 0x0D, CHR 0x20]"

definition TrimSpace :: "string \<Rightarrow> string" where
  "TrimSpace s = rev (dropWhile isSpace (rev (dropWhile isSpace s)))"

definition toLowerChar :: "char \<Rightarrow> char" where
  "toLowerChar c =
     (if (65::nat) \<le> of_char c \<and> of_char c \<le> (90::nat) then char_of (of_char c + (32::nat)) else c)"

definition ToLower :: "string \<Rightarrow> string" where
  "ToLower s = map toLowerChar s"

definition HasPrefix :: "string \<Rightarrow> string \<Rightarrow> bool" where
  "HasPrefix s p \<longleftrightarrow> take (length p) s = p"

fun Contains :: "string \<Rightarrow> string \<Rightarrow> bool" where
  "Contains [] sub \<longleftrightarrow> sub = []"
| "Contains (c # cs) sub \<longleftrightarrow> HasPrefix (c # cs) sub \<or> Contains cs sub"

definition isDigit :: "char \<Rightarrow> bool" where
  "isDigit c \<longleftrightarrow> (48::nat) \<le> of_char c \<and> of_char c \<le> (57::nat)"

definition digitVal :: "char \<Rightarrow> int" where
  "digitVal c = int (of_char c :: nat) - 48"

text \<open>\<^verbatim>\<open>strconv.Atoi\<close>: an optional sign and one or more decimal digits; \<open>None\<close> is the
  syntax or range error.\<close>

definition Atoi :: "string \<Rightarrow> int option" where
  "Atoi s =
     (let neg = (s \<noteq> [] \<and> hd s = CHR ''-'');
          ds = (if s \<noteq> [] \<and> (hd s = CHR ''-'' \<or> hd s = CHR ''+'') then tl s else s)
      in if ds = [] \<or> \<not> list_all isDigit ds then None
         else let v = foldl (\<lambda>a c. a * 10 + digitVal c) 0 ds;
                  n = (if neg then - v else v)
              in if n < - (2 ^ 63) \<or> n \<ge> 2 ^ 63 then None else Some n)"

text \<open>\<^verbatim>\<open>fmt.Sprintf("%q", s)\<close> for a string of printable ASCII without quotes or
  backslashes; the escapes Go adds for other bytes are not modelled.\<close>

definition quoted :: "string \<Rightarrow> string" where
  "quoted s = [CHR 0x22] @ s @ [CHR 0x22]"

section \<open>internal/browser: the page registry of the session manager\<close>

text \<open>
  A driver page handle, as far as the manager looks at it: its identity (the \<^verbatim>\<open>%p\<close>
  rendering of the handle, \<^verbatim>\<open>pageIdentifier\<close>), and what \<^verbatim>\<open>Title()\<close> and \<^verbatim>\<open>URL()\<close> return
  (the title is empty when \<^verbatim>\<open>Title()\<close> fails, the error being dropped by the callers).
  A \<^verbatim>\<open>nil\<close> handle is \<open>None\<close>.
\<close>

record Page =
  handle :: string
  title :: string
  url :: string

definition pageIdentifier :: "Page \<Rightarrow> string" where
  "pageIdentifier p = handle p"

text \<open>
  The registry fields of \<^verbatim>\<open>Manager\<close>. The Go maps are partial functions (a \<^verbatim>\<open>nil\<close> map
  reads as the empty one, and every write is preceded by the allocation), the
  listener sets are the key sets of \<^verbatim>\<open>map[string]struct{}\<close>.
\<close>

record Manager =
  page :: "Page option"
  pages :: "string \<rightharpoonup> Page"
  pageOrder :: "string list"
  activePageID :: string
  pageListeners :: "string set"

definition emptyManager :: Manager where
  "emptyManager =
     \<lparr>page = None, pages = Map.empty, pageOrder = [], activePageID = [], pageListeners = {}\<rparr>"

text \<open>\<^verbatim>\<open>BringToFront\<close> only talks to the driver, and its failure is logged.\<close>

definition setActivePage :: "Manager \<Rightarrow> string \<Rightarrow> bool \<Rightarrow> Manager" where
  "setActivePage m pageID bringToFront =
     (case pages m pageID of
        None \<Rightarrow> m
      | Some p \<Rightarrow> m\<lparr>page := Some p, activePageID := pageID\<rparr>)"

definition attachPageListeners :: "Manager \<Rightarrow> Page option \<Rightarrow> Manager" where
  "attachPageListeners m pg =
     (case pg of
        None \<Rightarrow> m
      | Some p \<Rightarrow>
          if handle p \<in> pageListeners m then m
          else m\<lparr>pageListeners := insert (handle p) (pageListeners m)\<rparr>)"

definition registerPage :: "Manager \<Rightarrow> Page option \<Rightarrow> bool \<Rightarrow> Manager" where
  "registerPage m pg activate =
     (case pg of
        None \<Rightarrow> m
      | Some p \<Rightarrow>
          let pid = pageIdentifier p
          in if pages m pid \<noteq> None then m
             else let m1 = m\<lparr>pages := (pages m)(pid \<mapsto> p), pageOrder := pageOrder m @ [pid]\<rparr>;
                      m2 = attachPageListeners m1 (Some p)
                  in if activate \<or> activePageID m2 = [] then setActivePage m2 pid activate
                     else m2)"

text \<open>The loop of \<^verbatim>\<open>handlePageClosed\<close> cuts the first occurrence of the identifier out
  of the order list and stops: \<^const>\<open>remove1\<close>.\<close>

definition handlePageClosed :: "Manager \<Rightarrow> Page option \<Rightarrow> Manager" where
  "handlePageClosed m pg =
     (case pg of
        None \<Rightarrow> m
      | Some p \<Rightarrow>
          let pid = pageIdentifier p;
              m1 = m\<lparr>pageListeners := pageListeners m - {pid},
                     pages := (pages m)(pid := None),
                     pageOrder := remove1 pid (pageOrder m)\<rparr>
          in if activePageID m1 = pid
             then let m2 = m1\<lparr>activePageID := [], page := None\<rparr>
                  in if length (pageOrder m2) > 0
                     then setActivePage m2 (last (pageOrder m2)) True
                     else m2
             else m1)"

text \<open>\<^verbatim>\<open>cleanupCurrentContext\<close> closes the page and the context at the driver and
  resets the registry.\<close>

definition cleanupCurrentContext :: "Manager \<Rightarrow> Manager" where
  "cleanupCurrentContext m =
     m\<lparr>page := None, activePageID := [], pageOrder := [], pages := Map.empty,
       pageListeners := {}\<rparr>"

text \<open>\<^verbatim>\<open>rebuildPageTracking\<close>; the argument is \<^verbatim>\<open>browserCtx.Pages()\<close>, \<open>None\<close> for a
  \<^verbatim>\<open>nil\<close> context. \<open>registerAll\<close> is its loop over the pages.\<close>

fun registerAll :: "Manager \<Rightarrow> Page list \<Rightarrow> Manager" where
  "registerAll m [] = m"
| "registerAll m (pg # ps) =
     registerAll
       (registerPage m (Some pg) (length (pageOrder m) = 0 \<and> activePageID m = [])) ps"

definition rebuildPageTracking :: "Manager \<Rightarrow> Page list option \<Rightarrow> Manager" where
  "rebuildPageTracking m ctx =
     (case ctx of
        None \<Rightarrow> m
      | Some ps \<Rightarrow>
          let m0 = m\<lparr>pages := Map.empty, pageOrder := [], page := None, activePageID := [],
                     pageListeners := {}\<rparr>;
              m1 = registerAll m0 ps
          in if length (pageOrder m1) > 0 \<and> activePageID m1 = []
             then setActivePage m1 (pageOrder m1 ! 0) False
             else m1)"

text \<open>
  \<^verbatim>\<open>ensureBrowser\<close>. What the driver does is a parameter: \<open>probe\<close> says whether the
  liveness probe \<^verbatim>\<open>m.page.Title()\<close> succeeds, and \<open>recovery\<close> is the outcome of the
  two-tier restart when it is needed: either a fresh context whose pages are
  re-enumerated (the code opens a page when the context has none, so there is at
  least one), or the error of the last failing tier. Every restart path starts with
  \<^verbatim>\<open>cleanupCurrentContext\<close>.
\<close>

datatype recovery = Recovered Page "Page list" | Unrecoverable error

definition IsBrowserAlive :: "Manager \<Rightarrow> bool \<Rightarrow> bool" where
  "IsBrowserAlive m probe \<longleftrightarrow> page m \<noteq> None \<and> probe"

definition ensureBrowser :: "Manager \<Rightarrow> bool \<Rightarrow> recovery \<Rightarrow> Manager \<times> error option" where
  "ensureBrowser m probe r =
     (if IsBrowserAlive m probe then (m, None)
      else case r of
             Recovered p ps \<Rightarrow>
               (rebuildPageTracking (cleanupCurrentContext m) (Some (p # ps)), None)
           | Unrecoverable e \<Rightarrow> (cleanupCurrentContext m, Some e))"

text \<open>
  The title-or-URL search of \<^verbatim>\<open>SwitchToPage\<close>. It reads \<^verbatim>\<open>m.pages[id]\<close> without the
  presence check, so an identifier of the order list that is missing from the map
  yields a \<^verbatim>\<open>nil\<close> handle whose \<^verbatim>\<open>Title()\<close> call panics: \<open>Panic\<close>.
\<close>

datatype 'a outcome = Return 'a | Panic

fun findPage :: "(string \<rightharpoonup> Page) \<Rightarrow> string \<Rightarrow> string list \<Rightarrow> string option outcome" where
  "findPage ps lower [] = Return None"
| "findPage ps lower (pid # ids) =
     (case ps pid of
        None \<Rightarrow> Panic
      | Some p \<Rightarrow>
          if Contains (ToLower (title p)) lower \<or> Contains (ToLower (url p)) lower
          then Return (Some pid)
          else findPage ps lower ids)"

definition SwitchToPage ::
  "Manager \<Rightarrow> bool \<Rightarrow> recovery \<Rightarrow> string \<Rightarrow> (Manager \<times> error option) outcome" where
  "SwitchToPage m probe r target =
     (case ensureBrowser m probe r of
        (m1, Some e) \<Rightarrow> Return (m1, Some (''browser not available: '' @ e))
      | (m1, None) \<Rightarrow>
          if length (pageOrder m1) = 0 then Return (m1, Some ''no open pages to switch'')
          else let t = TrimSpace target
               in if t = [] then Return (setActivePage m1 (last (pageOrder m1)) True, None)
                  else case Atoi t of
                         Some idx \<Rightarrow>
                           if idx < 1 \<or> idx > int (length (pageOrder m1))
                           then Return (m1, Some (''tab index '' @ itoa idx @ '' out of range''))
                           else Return (setActivePage m1 (pageOrder m1 ! nat (idx - 1)) True, None)
                       | None \<Rightarrow>
                           (case findPage (pages m1) (ToLower t) (pageOrder m1) of
                              Panic \<Rightarrow> Panic
                            | Return (Some pid) \<Rightarrow> Return (setActivePage m1 pid True, None)
                            | Return None \<Rightarrow>
                                Return (m1, Some (''no page matches target '' @ quoted t))))"

text \<open>
  The registry invariant: the order list enumerates the registered pages without
  repetition, and the active page id, when set (non-empty), is a registered page.
\<close>

definition registry_inv :: "Manager \<Rightarrow> bool" where
  "registry_inv m \<longleftrightarrow>
     set (pageOrder m) = dom (pages m) \<and> distinct (pageOrder m) \<and>
     (activePageID m \<noteq> [] \<longrightarrow> activePageID m \<in> dom (pages m))"

text \<open>The manager after \<^verbatim>\<open>NewManager\<close>: the registry rebuilt from the pages of the
  launched context.\<close>

definition NewManager :: "Page \<Rightarrow> Page list \<Rightarrow> Manager" where
  "NewManager p ps = rebuildPageTracking emptyManager (Some (p # ps))"

text \<open>Three pages of an example session, in opening order.\<close>

definition tabA :: Page where
  "tabA = \<lparr>handle = ''0xc000010000'', title = ''GitHub'', url = ''https://github.com''\<rparr>"

definition tabB :: Page where
  "tabB = \<lparr>handle = ''0xc000010080'', title = ''Mail'', url = ''https://mail.example.com''\<rparr>"

definition tabC :: Page where
  "tabC = \<lparr>handle = ''0xc000010100'', title = ''Docs'', url = ''https://docs.example.com''\<rparr>"

section \<open>internal/ai: decisions of the oracle\<close>

record DecisionResponse =
  Action :: string
  Selector :: string
  Text :: string
  URL :: string
  Reasoning :: string
  IsComplete :: bool
  NextStep :: string
  NeedsConfirm :: bool

text \<open>The zero value \<^verbatim>\<open>DecisionResponse{}\<close>.\<close>

definition emptyDecision :: DecisionResponse where
  "emptyDecision =
     \<lparr>Action = [], Selector = [], Text = [], URL = [], Reasoning = [], IsComplete = False,
      NextStep = [], NeedsConfirm = False\<rparr>"

text \<open>
  What \<^verbatim>\<open>CreateChatCompletion\<close> gives back: an error, a response without choices, or
  the content of the first choice.
\<close>

datatype chat_reply = ChatError error | NoChoices | Choice string

text \<open>\<^verbatim>\<open>strings.SplitN(s, "\n", 2)\<close> has two parts exactly when \<open>s\<close> has a newline: the
  text before the first newline and the text after it.\<close>

definition splitFirstLine :: "string \<Rightarrow> (string \<times> string) option" where
  "splitFirstLine s =
     (if CHR 0x0A \<in> set s
      then Some (takeWhile (\<lambda>c. c \<noteq> CHR 0x0A) s, tl (dropWhile (\<lambda>c. c \<noteq> CHR 0x0A) s))
      else None)"

text \<open>\<^verbatim>\<open>strings.LastIndex\<close>: the greatest offset at which \<open>sub\<close> starts, \<open>None\<close> for -1.\<close>

definition LastIndex :: "string \<Rightarrow> string \<Rightarrow> nat option" where
  "LastIndex s sub =
     (case filter (\<lambda>i. HasPrefix (drop i s) sub) (rev [0..<Suc (length s)]) of
        [] \<Rightarrow> None
      | i # _ \<Rightarrow> Some i)"

text \<open>The removal of one code fence, as \<^verbatim>\<open>MakeDecision\<close> does it before parsing.\<close>

definition stripFence :: "string \<Rightarrow> string" where
  \<open>stripFence raw =
     (let content = TrimSpace raw
      in if HasPrefix content ''```''
         then (case splitFirstLine content of
                 None \<Rightarrow> content
               | Some (first, rest) \<Rightarrow>
                   let c1 = TrimSpace rest
                   in (case LastIndex c1 ''```'' of
                         None \<Rightarrow> c1
                       | Some idx \<Rightarrow> TrimSpace (take idx c1)))
         else content)\<close>

text \<open>
  \<^verbatim>\<open>MakeDecision\<close>. The chat completion \<open>chat\<close> and the JSON decoder \<open>decode\<close>
  (\<^verbatim>\<open>json.Unmarshal\<close> into a \<^verbatim>\<open>DecisionResponse\<close>, \<open>Inl\<close> its error message) belong to
  libraries outside the repository and are parameters.
\<close>

definition MakeDecision ::
  "(string \<Rightarrow> string \<Rightarrow> chat_reply) \<Rightarrow> (string \<Rightarrow> error + DecisionResponse) \<Rightarrow>
   string \<Rightarrow> string \<Rightarrow> DecisionResponse \<times> error option" where
  "MakeDecision chat decode systemPrompt userInput =
     (case chat systemPrompt userInput of
        ChatError e \<Rightarrow> (emptyDecision, Some (''failed to call OpenAI: '' @ e))
      | NoChoices \<Rightarrow> (emptyDecision, Some ''empty response from OpenAI'')
      | Choice raw \<Rightarrow>
          (case decode (stripFence raw) of
             Inl e \<Rightarrow>
               (emptyDecision\<lparr>Action := ''error'', Reasoning := raw, IsComplete := False\<rparr>,
                Some (''failed to parse decision JSON: '' @ e))
           | Inr decision \<Rightarrow> (decision, None)))"

section \<open>internal/browser: commands of the session manager\<close>

record ElementInfo =
  elType :: string
  elText :: string
  Href :: string
  elSelector :: string
  elIndex :: int

record PageContent =
  pcTitle :: string
  pcURL :: string
  Elements :: "ElementInfo list"
  MainText :: string

record TabInfo =
  Index :: int
  tabTitle :: string
  tabURL :: string
  Active :: bool

text \<open>
  The notifications of the driver: \<^verbatim>\<open>OnPage\<close> of the context calls
  \<^verbatim>\<open>registerPage(p, true)\<close> and \<^verbatim>\<open>OnClose\<close> of a page calls \<^verbatim>\<open>handlePageClosed(p)\<close>
  (\<^verbatim>\<open>OnCrash\<close> only logs). \<open>deliver\<close> runs the handlers of a sequence of
  notifications on the registry, in their order of arrival.
\<close>

datatype notification = PageOpened Page | PageClosed Page

fun deliver :: "Manager \<Rightarrow> notification list \<Rightarrow> Manager" where
  "deliver m [] = m"
| "deliver m (PageOpened p # ns) = deliver (registerPage m (Some p) True) ns"
| "deliver m (PageClosed p # ns) = deliver (handlePageClosed m (Some p)) ns"

text \<open>
  The browser as one command of the manager meets it: the registry at that moment,
  the liveness probe and the recovery outcome that \<^verbatim>\<open>ensureBrowser\<close> would see, the
  error (if any) of each Playwright call on the active page, the notifications that
  arrive while that call (or the pause of an action that only waits) is running, and
  the content that the extraction queries yield.
\<close>

record driver =
  registry :: Manager
  probeOK :: bool
  recover :: recovery
  notifications :: "notification list"
  gotoErr :: "string \<Rightarrow> error option"
  clickErr :: "string \<Rightarrow> error option"
  fillErr :: "string \<Rightarrow> string \<Rightarrow> error option"
  focusErr :: "string \<Rightarrow> error option"
  typeErr :: "string \<Rightarrow> string \<Rightarrow> error option"
  pressErr :: "string \<Rightarrow> error option"
  loadStateErr :: "error option"
  extracted :: PageContent

definition normalizeURL :: "string \<Rightarrow> string" where
  "normalizeURL u =
     (let t = TrimSpace u
      in if t = [] then t
         else if HasPrefix t ''http://'' \<or> HasPrefix t ''https://'' then t
         else ''https://'' @ t)"

text \<open>The test every command applies to a failed Playwright call.\<close>

definition pageClosed :: "error \<Rightarrow> bool" where
  "pageClosed msg \<longleftrightarrow> Contains msg ''Page closed'' \<or> Contains msg ''page closed''"

text \<open>
  The commands return the registry they leave and their error: the registry of
  \<^verbatim>\<open>ensureBrowser\<close> when the browser is not available, and otherwise that registry
  after the notifications that arrived during the Playwright call. A command that
  reaches its Playwright call reads \<^verbatim>\<open>m.page\<close> right after a successful
  \<^verbatim>\<open>ensureBrowser\<close>, which leaves an active page (\<open>ensureBrowser_page\<close> below).
\<close>

definition Navigate :: "driver \<Rightarrow> string \<Rightarrow> Manager \<times> error option" where
  "Navigate d u =
     (case ensureBrowser (registry d) (probeOK d) (recover d) of
        (m, Some e) \<Rightarrow> (m, Some (''browser not available: '' @ e))
      | (m, None) \<Rightarrow>
          (case gotoErr d (normalizeURL u) of
             None \<Rightarrow> (deliver m (notifications d), None)
           | Some msg \<Rightarrow>
               if pageClosed msg
               then (deliver m (notifications d),
                     Some (''page closed during navigation (possibly due to CAPTCHA)'' @
                           '' - retrying may help''))
               else (deliver m (notifications d),
                     Some (''failed to navigate to '' @ normalizeURL u @ '': '' @ msg))))"

definition GetPageContent :: "driver \<Rightarrow> PageContent \<times> error option" where
  "GetPageContent d =
     (case ensureBrowser (registry d) (probeOK d) (recover d) of
        (m, Some e) \<Rightarrow>
          (\<lparr>pcTitle = [], pcURL = [], Elements = [], MainText = []\<rparr>,
           Some (''browser not available: '' @ e))
      | (m, None) \<Rightarrow> (extracted d, None))"

definition Click :: "driver \<Rightarrow> string \<Rightarrow> Manager \<times> error option" where
  "Click d selector =
     (case ensureBrowser (registry d) (probeOK d) (recover d) of
        (m, Some e) \<Rightarrow> (m, Some (''browser not available: '' @ e))
      | (m, None) \<Rightarrow>
          (case clickErr d selector of
             None \<Rightarrow> (deliver m (notifications d), None)
           | Some msg \<Rightarrow>
               if pageClosed msg then (deliver m (notifications d), None)
               else (deliver m (notifications d), Some (''failed to click element: '' @ msg))))"

definition Fill :: "driver \<Rightarrow> string \<Rightarrow> string \<Rightarrow> Manager \<times> error option" where
  "Fill d selector txt =
     (case ensureBrowser (registry d) (probeOK d) (recover d) of
        (m, Some e) \<Rightarrow> (m, Some (''browser not available: '' @ e))
      | (m, None) \<Rightarrow>
          (case fillErr d selector txt of
             None \<Rightarrow> (deliver m (notifications d), None)
           | Some msg \<Rightarrow>
               if pageClosed msg then (deliver m (notifications d), None)
               else (deliver m (notifications d), Some (''failed to fill form: '' @ msg))))"

definition Focus :: "driver \<Rightarrow> string \<Rightarrow> Manager \<times> error option" where
  "Focus d selector =
     (case ensureBrowser (registry d) (probeOK d) (recover d) of
        (m, Some e) \<Rightarrow> (m, Some (''browser not available: '' @ e))
      | (m, None) \<Rightarrow>
          (case focusErr d selector of
             None \<Rightarrow> (deliver m (notifications d), None)
           | Some msg \<Rightarrow>
               if pageClosed msg then (deliver m (notifications d), None)
               else (deliver m (notifications d), Some (''failed to focus element: '' @ msg))))"

definition TypeText :: "driver \<Rightarrow> string \<Rightarrow> string \<Rightarrow> Manager \<times> error option" where
  "TypeText d selector txt =
     (case ensureBrowser (registry d) (probeOK d) (recover d) of
        (m, Some e) \<Rightarrow> (m, Some (''browser not available: '' @ e))
      | (m, None) \<Rightarrow>
          (case typeErr d selector txt of
             None \<Rightarrow> (deliver m (notifications d), None)
           | Some msg \<Rightarrow>
               if pageClosed msg then (deliver m (notifications d), None)
               else (deliver m (notifications d), Some (''failed to type text: '' @ msg))))"

definition PressKey :: "driver \<Rightarrow> string \<Rightarrow> Manager \<times> error option" where
  "PressKey d key =
     (case ensureBrowser (registry d) (probeOK d) (recover d) of
        (m, Some e) \<Rightarrow> (m, Some (''browser not available: '' @ e))
      | (m, None) \<Rightarrow>
          (case pressErr d key of
             None \<Rightarrow> (deliver m (notifications d), None)
           | Some msg \<Rightarrow>
               if pageClosed msg then (deliver m (notifications d), None)
               else (deliver m (notifications d), Some (''failed to press key: '' @ msg))))"

text \<open>
  \<^verbatim>\<open>WaitForNavigation\<close> calls \<^verbatim>\<open>m.page.WaitForLoadState()\<close> without \<^verbatim>\<open>ensureBrowser\<close>
  and without a \<^verbatim>\<open>nil\<close> check: on a registry without an active page (\<^verbatim>\<open>m.page\<close> is
  \<^verbatim>\<open>nil\<close> after the last page closed, or after \<^verbatim>\<open>cleanupCurrentContext\<close>) the call
  panics. \<open>m\<close> is the registry at the time of the call.
\<close>

definition WaitForNavigation :: "Manager \<Rightarrow> driver \<Rightarrow> error option outcome" where
  "WaitForNavigation m d =
     (case page m of
        None \<Rightarrow> Panic
      | Some p \<Rightarrow>
          (case loadStateErr d of
             None \<Rightarrow> Return None
           | Some msg \<Rightarrow>
               if pageClosed msg then Return None
               else Return (Some (''failed to wait for navigation: '' @ msg))))"

text \<open>\<^verbatim>\<open>ListOpenPages\<close>; \<open>listTabs\<close> is its loop, \<open>idx\<close> the position in the order list.\<close>

fun listTabs :: "Manager \<Rightarrow> nat \<Rightarrow> string list \<Rightarrow> TabInfo list" where
  "listTabs m idx [] = []"
| "listTabs m idx (pageID # ids) =
     (case pages m pageID of
        None \<Rightarrow> listTabs m (Suc idx) ids
      | Some p \<Rightarrow>
          \<lparr>Index = int idx + 1,
           tabTitle = (if title p = [] then ''Unknown'' else title p),
           tabURL = url p,
           Active = (pageID = activePageID m)\<rparr> # listTabs m (Suc idx) ids)"

definition ListOpenPages :: "Manager \<Rightarrow> TabInfo list" where
  "ListOpenPages m = listTabs m 0 (pageOrder m)"

section \<open>internal/security: the confirmation gate\<close>

record DestructiveAction =
  daType :: string
  Description :: string
  Target :: string
  Severity :: string

section \<open>internal/agent: the task orchestrator\<close>

record Agent =
  contextMgr :: ContextManager
  currentTask :: string
  maxIterations :: int
  verbose :: bool

definition NewAgent :: "bool \<Rightarrow> Agent" where
  "NewAgent v =
     \<lparr>contextMgr = NewContextManager 8000 20, currentTask = [], maxIterations = 20,
      verbose = v\<rparr>"

text \<open>
  The collaborators of one task run. \<open>reply i\<close> is the chat completion that answers
  the decision request of iteration (or plan step) \<open>i\<close>; \<open>decode\<close> and \<open>encode\<close> are
  \<^verbatim>\<open>json.Unmarshal\<close> and \<^verbatim>\<open>json.Marshal\<close> on decisions; \<open>planTask\<close> is the result of
  \<^verbatim>\<open>PlanTask\<close>; \<open>startDrv\<close>, \<open>planDrv\<close>, \<open>snapDrv i\<close> and \<open>actDrv i\<close> are the browser
  during the initial navigation, the planning snapshot, the snapshot of iteration \<open>i\<close>
  and the dispatch of its action; \<open>captchaWait i\<close> is what \<^verbatim>\<open>waitForCaptchaSolution\<close>
  returns in iteration \<open>i\<close> (it polls against a wall-clock deadline and the
  cancellation of the context, which are not modelled); \<open>confirm i\<close> is
  \<^verbatim>\<open>RequestConfirmation\<close>, the answer read from the terminal.
\<close>

record env =
  reply :: "nat \<Rightarrow> string \<Rightarrow> string \<Rightarrow> chat_reply"
  decode :: "string \<Rightarrow> error + DecisionResponse"
  encode :: "DecisionResponse \<Rightarrow> string"
  planTask :: "string \<Rightarrow> string \<Rightarrow> error + string list"
  startDrv :: driver
  planDrv :: driver
  snapDrv :: "nat \<Rightarrow> driver"
  actDrv :: "nat \<Rightarrow> driver"
  captchaWait :: "nat \<Rightarrow> error option"
  confirm :: "nat \<Rightarrow> DestructiveAction \<Rightarrow> bool \<times> error option"

definition blockedPatterns :: "string list" where
  "blockedPatterns =
     [''captcha'', ''showcaptcha'', ''challenge'', ''security check'', ''verify'',
      ''bot-check'', ''robot'', ''access denied'', ''403'', ''blocked'']"

definition isBlockedPage :: "PageContent \<Rightarrow> bool" where
  "isBlockedPage pageContent =
     (let u = ToLower (pcURL pageContent); t = ToLower (pcTitle pageContent)
      in list_ex (\<lambda>pattern. Contains u pattern \<or> Contains t pattern) blockedPatterns)"

text \<open>\<^verbatim>\<open>buildPageDescription\<close>; \<open>describeElements\<close> and \<open>describeTabs\<close> are its two loops.\<close>

fun describeElements :: "nat \<Rightarrow> ElementInfo list \<Rightarrow> string" where
  "describeElements i [] = []"
| "describeElements i (elem # elems) =
     itoa (int i + 1) @ ''. ['' @ elType elem @ ''] '' @ elText elem @ '' (selector: '' @
     elSelector elem @ '')\<newline>'' @ describeElements (Suc i) elems"

fun describeTabs :: "TabInfo list \<Rightarrow> string" where
  "describeTabs [] = []"
| "describeTabs (tab # tabs) =
     ''['' @ (if Active tab then ''*'' else '' '') @ ''] '' @ itoa (Index tab) @ ''. '' @
     tabTitle tab @ '' ('' @ tabURL tab @ '')\<newline>'' @ describeTabs tabs"

definition buildPageDescription :: "PageContent \<Rightarrow> TabInfo list \<Rightarrow> string" where
  "buildPageDescription pageContent tabs =
     ''Title: '' @ pcTitle pageContent @ ''\<newline>URL: '' @ pcURL pageContent @
     ''\<newline>\<newline>Interactive Elements:\<newline>'' @
     describeElements 0 (Elements pageContent) @
     (if length tabs > 0 then ''\<newline>Open Tabs:\<newline>'' @ describeTabs tabs else [])"

text \<open>The Manager calls that \<^verbatim>\<open>executeAction\<close> makes, in order.\<close>

datatype call =
    CallNavigate string
  | CallWaitForNavigation
  | CallClick string
  | CallFill string string
  | CallFocus string
  | CallTypeText string string
  | CallPressKey string
  | CallSwitchToPage string

text \<open>
  The \<^verbatim>\<open>switch\<close> of \<^verbatim>\<open>executeAction\<close>: its error, the Manager calls it makes and
  the registry it leaves. After a navigation or a click that returned \<^verbatim>\<open>nil\<close> the code
  calls \<^verbatim>\<open>WaitForNavigation\<close> and drops its error; the call runs on the registry that
  the command left, and panics when that registry has no active page. The pauses of
  "wait" and "error" (\<^verbatim>\<open>time.Sleep\<close>) only let the notifications arrive.
\<close>

definition dispatch ::
  "driver \<Rightarrow> DecisionResponse \<Rightarrow> (error option \<times> call list \<times> Manager) outcome" where
  "dispatch d decision =
     (let action = ToLower (Action decision)
      in if action = ''navigate'' then
           (if URL decision \<noteq> [] then
              (case Navigate d (URL decision) of
                 (m, Some e) \<Rightarrow>
                   if Contains e ''page closed''
                   then Return (None, [CallNavigate (URL decision)], m)
                   else Return (Some e, [CallNavigate (URL decision)], m)
               | (m, None) \<Rightarrow>
                   (case WaitForNavigation m d of
                      Panic \<Rightarrow> Panic
                    | Return w \<Rightarrow>
                        Return (None, [CallNavigate (URL decision), CallWaitForNavigation], m)))
            else Return (None, [], registry d))
         else if action = ''click'' then
           (if Selector decision \<noteq> [] then
              (case Click d (Selector decision) of
                 (m, Some e) \<Rightarrow> Return (Some e, [CallClick (Selector decision)], m)
               | (m, None) \<Rightarrow>
                   (case WaitForNavigation m d of
                      Panic \<Rightarrow> Panic
                    | Return w \<Rightarrow>
                        Return (None, [CallClick (Selector decision), CallWaitForNavigation], m)))
            else Return (None, [], registry d))
         else if action = ''fill'' \<or> action = ''input'' then
           (if Selector decision \<noteq> [] \<and> Text decision \<noteq> [] then
              (case Fill d (Selector decision) (Text decision) of
                 (m, e) \<Rightarrow> Return (e, [CallFill (Selector decision) (Text decision)], m))
            else Return (None, [], registry d))
         else if action = ''focus'' then
           (if Selector decision \<noteq> [] then
              (case Focus d (Selector decision) of
                 (m, e) \<Rightarrow> Return (e, [CallFocus (Selector decision)], m))
            else Return (None, [], registry d))
         else if action = ''type'' then
           (if Selector decision \<noteq> [] \<and> Text decision \<noteq> [] then
              (case TypeText d (Selector decision) (Text decision) of
                 (m, e) \<Rightarrow> Return (e, [CallTypeText (Selector decision) (Text decision)], m))
            else Return (None, [], registry d))
         else if action = ''press'' \<or> action = ''keypress'' \<or> action = ''key'' then
           (if Text decision \<noteq> [] then
              (case PressKey d (Text decision) of
                 (m, e) \<Rightarrow> Return (e, [CallPressKey (Text decision)], m))
            else Return (None, [], registry d))
         else if action = ''switch_tab'' \<or> action = ''switch'' then
           (let target = (if Text decision = [] then URL decision else Text decision)
            in case SwitchToPage (registry d) (probeOK d) (recover d) target of
                 Panic \<Rightarrow> Panic
               | Return (m, e) \<Rightarrow> Return (e, [CallSwitchToPage target], m))
         else if action = ''wait'' then
           Return (None, [], deliver (registry d) (notifications d))
         else if action = ''complete'' then Return (None, [], registry d)
         else if action = ''error'' then
           Return (None, [], deliver (registry d) (notifications d))
         else Return (Some (''unknown action: '' @ Action decision), [], registry d))"

definition executeAction ::
  "driver \<Rightarrow> (DestructiveAction \<Rightarrow> bool \<times> error option) \<Rightarrow> DecisionResponse \<Rightarrow>
   (error option \<times> call list \<times> Manager) outcome" where
  "executeAction d ask decision =
     (if NeedsConfirm decision then
        (case ask \<lparr>daType = Action decision, Description = Reasoning decision, Target = [],
                   Severity = ''high''\<rparr> of
           (approved, Some e) \<Rightarrow>
             Return (Some (''confirmation check failed: '' @ e), [], registry d)
         | (approved, None) \<Rightarrow>
             if \<not> approved then Return (Some ''action denied by user'', [], registry d)
             else dispatch d decision)
      else dispatch d decision)"

text \<open>The system prompt of \<^verbatim>\<open>analyzeAndDecide\<close> and its user input
  \<^verbatim>\<open>fmt.Sprintf(..., a.currentTask, pageDescription)\<close>.\<close>

definition iterSystemPrompt :: string where
  \<open>iterSystemPrompt =
     ''You are an intelligent web automation agent. Your task is to complete '' @
     ''user requests by interacting with web pages.\<newline>'' @
     ''You can:\<newline>'' @
     ''- Click on buttons and links (action "click")\<newline>'' @
     ''- Fill or type into form fields (actions "fill" or "type"; provide tex'' @
     ''t to enter)\<newline>'' @
     ''- Focus an element before typing if necessary (action "focus")\<newline>'' @
     ''- Navigate to URLs (action "navigate")\<newline>'' @
     ''- Switch between open tabs (action "switch_tab"; specify tab index or '' @
     ''a fragment of the tab title/URL)\<newline>'' @
     ''- Press keyboard keys (action "press"; set text to the key name, e.g. '' @
     ''"Enter")\<newline>'' @
     ''- Read page content\<newline>'' @
     ''- Wait for page load or manual intervention (action "wait")\<newline>'' @
     ''\<newline>'' @
     ''IMPORTANT INSTRUCTIONS:\<newline>'' @
     ''- If you encounter a CAPTCHA or security challenge, use the "wait" act'' @
     ''ion to give the user time to solve it manually. Do NOT use "error".\<newline>'' @
     ''- After waiting, try to navigate again or continue the task.\<newline>'' @
     ''- Be systematic, logical, and report when the task is complete.\<newline>'' @
     ''- If no progress can be made after several retries on the same page, o'' @
     ''nly then use "error" action.''\<close>

definition iterUserInput :: "string \<Rightarrow> string \<Rightarrow> string" where
  \<open>iterUserInput task pageDescription =
     ''Current task: '' @ task @
     (''\<newline>'' @
     ''\<newline>'' @
     ''Current page state:\<newline>'') @ pageDescription @
     (''\<newline>'' @
     ''\<newline>'' @
     ''Based on the page content, what should be the next action? Respond wit'' @
     ''h a clear decision.\<newline>'' @
     ''Return a JSON object with:\<newline>'' @
     ''- action: the action to take (navigate, click, fill, focus, type, pres'' @
     ''s, switch_tab, wait, complete, error)\<newline>'' @
     ''- selector: CSS selector for the element (if clicking or filling)\<newline>'' @
     ''- text: text to fill (if filling a form)\<newline>'' @
     ''- url: URL to navigate to (if navigating)\<newline>'' @
     ''- reasoning: explanation of your decision\<newline>'' @
     ''- is_complete: whether the task is complete\<newline>'' @
     ''- needs_confirm: whether this action needs user confirmation\<newline>'')\<close>

text \<open>The system prompt of a plan step and its user input
  \<^verbatim>\<open>fmt.Sprintf(..., a.currentTask, step, buildPageDescription(...))\<close>.\<close>

definition planSystemPrompt :: string where
  \<open>planSystemPrompt =
     ''You are an intelligent web automation agent. Provide a single concise '' @
     ''action to accomplish the given step on the current page.\<newline>'' @
     ''Valid actions: navigate, click, fill, focus, type, press, wait, switch'' @
     ''_tab, complete, error.\<newline>'' @
     ''Use "focus" before typing if needed, "type" for freeform text entry (t'' @
     ''ext field provided in the decision), and "press" for keyboard keys lik'' @
     ''e Enter.\<newline>'' @
     ''Use "switch_tab" when you must operate on a different browser tab (spe'' @
     ''cify tab index or part of the title/URL).''\<close>

definition planUserInput :: "string \<Rightarrow> string \<Rightarrow> string \<Rightarrow> string" where
  "planUserInput task step pageDescription =
     ''Task: '' @ task @ ''\<newline>Plan step: '' @ step @ ''\<newline>Current page:\<newline>'' @
     pageDescription @ ''\<newline>\<newline>Return a single JSON decision as before.''"

text \<open>
  The make-room loop of \<^verbatim>\<open>analyzeAndDecide\<close>:
  \<^verbatim>\<open>for !CanAddTokens(needed) { RemoveOldest(1) }\<close>. It need not terminate, so it is a
  partial function; \<open>None\<close> is the run that never leaves the loop.
\<close>

partial_function (option) makeRoom :: "ContextManager \<Rightarrow> int \<Rightarrow> ContextManager option" where
  "makeRoom cm needed =
     (if CanAddTokens (tokenCounter cm) needed then Some cm
      else makeRoom (RemoveOldest cm 1) needed)"

text \<open>
  \<^verbatim>\<open>analyzeAndDecide\<close> in iteration \<open>i\<close>. Its error result is \<^verbatim>\<open>nil\<close> on every path; the
  sums of token estimates are far below \<open>2 ^ 63\<close>.
\<close>

definition analyzeAndDecide ::
  "env \<Rightarrow> nat \<Rightarrow> Agent \<Rightarrow> PageContent \<Rightarrow> (Agent \<times> DecisionResponse \<times> error option) option" where
  "analyzeAndDecide e i a pageContent =
     (let pageDescription =
            buildPageDescription pageContent (ListOpenPages (registry (snapDrv e i)));
          systemPrompt = iterSystemPrompt;
          userInput = iterUserInput (currentTask a) pageDescription;
          cm1 = AddMessage (AddMessage (contextMgr a) ''system'' systemPrompt) ''user'' userInput;
          needed = EstimateTokens systemPrompt + EstimateTokens userInput + 400
      in case makeRoom cm1 needed of
           None \<Rightarrow> None
         | Some cm2 \<Rightarrow>
             (case MakeDecision (reply e i) (decode e) systemPrompt userInput of
                (d, Some err) \<Rightarrow>
                  Some (a\<lparr>contextMgr := cm2\<rparr>,
                        emptyDecision\<lparr>Action := ''error'', Reasoning := err, IsComplete := False\<rparr>,
                        None)
              | (decision, None) \<Rightarrow>
                  let cm3 = AddMessage cm2 ''assistant''
                              (if Reasoning decision \<noteq> [] then Reasoning decision
                               else encode e decision);
                      promptTokens = EstimateTokens systemPrompt + EstimateTokens userInput;
                      completionTokens = EstimateTokens (Reasoning decision);
                      cm4 = (case Add (tokenCounter cm3) promptTokens completionTokens of
                               (tc, None) \<Rightarrow> cm3\<lparr>tokenCounter := tc\<rparr>
                             | (tc, Some err) \<Rightarrow>
                                 let cm' = RemoveOldest (cm3\<lparr>tokenCounter := tc\<rparr>) 1
                                 in cm'\<lparr>tokenCounter :=
                                         fst (Add (tokenCounter cm') promptTokens
                                                completionTokens)\<rparr>)
                  in Some (a\<lparr>contextMgr := cm4\<rparr>, decision, None)))"

text \<open>
  What a run leaves behind: \<open>Snapshot i\<close> when iteration (or plan step) \<open>i\<close> starts
  with its page snapshot, \<open>Dispatch i d r cs\<close> when \<^verbatim>\<open>executeAction\<close> is called in
  iteration \<open>i\<close> on decision \<open>d\<close>, with its result and the Manager calls it made.
\<close>

datatype event =
    Snapshot nat
  | Dispatch nat DecisionResponse "error option" "call list"

text \<open>
  The fallback loop of \<^verbatim>\<open>ExecuteTask\<close>,
  \<^verbatim>\<open>for iteration := 0; iteration < a.maxIterations; iteration++\<close>: \<open>k\<close> iterations are
  left and \<open>i\<close> is the value of \<^verbatim>\<open>iteration\<close>. The result is the error of the task
  (\<open>None\<close> for success), the events and the agent; \<open>Panic\<close> is a run-time panic and
  the outer \<open>None\<close> a run that does not return.
\<close>

fun fallbackLoop ::
  "env \<Rightarrow> nat \<Rightarrow> nat \<Rightarrow> Agent \<Rightarrow> event list \<Rightarrow>
   (error option \<times> event list \<times> Agent) outcome option" where
  "fallbackLoop e 0 i a tr =
     Some (Return (Some (''max iterations ('' @ itoa (maxIterations a) @
                         '') reached without completing task: '' @ currentTask a), tr, a))"
| "fallbackLoop e (Suc k) i a tr =
     (case GetPageContent (snapDrv e i) of
        (pc, Some err) \<Rightarrow>
          Some (Return (Some (''failed to get page content: '' @ err), tr @ [Snapshot i], a))
      | (pageContent, None) \<Rightarrow>
          if isBlockedPage pageContent then
            (case captchaWait e i of
               Some err \<Rightarrow>
                 Some (Return (Some (''CAPTCHA wait failed: '' @ err), tr @ [Snapshot i], a))
             | None \<Rightarrow> fallbackLoop e k (Suc i) a (tr @ [Snapshot i]))
          else
            (case analyzeAndDecide e i a pageContent of
               None \<Rightarrow> None
             | Some (a1, decision, Some err) \<Rightarrow>
                 Some (Return (Some (''decision making failed: '' @ err), tr @ [Snapshot i], a1))
             | Some (a1, decision, None) \<Rightarrow>
                 if IsComplete decision then Some (Return (None, tr @ [Snapshot i], a1))
                 else (case executeAction (actDrv e i) (confirm e i) decision of
                         Panic \<Rightarrow> Some Panic
                       | Return (r, cs, m) \<Rightarrow>
                           fallbackLoop e k (Suc i) a1
                             (tr @ [Snapshot i, Dispatch i decision r cs]))))"

text \<open>
  The plan loop of \<^verbatim>\<open>ExecuteTask\<close>, \<^verbatim>\<open>for idx, step := range steps\<close>. After an action
  that returned \<^verbatim>\<open>nil\<close> the loop calls \<^verbatim>\<open>WaitForNavigation\<close> on the registry that the
  action left and drops its error; after a failed action it goes to the next step at
  once.
\<close>

fun planLoop ::
  "env \<Rightarrow> Agent \<Rightarrow> nat \<Rightarrow> string list \<Rightarrow> event list \<Rightarrow>
   (error option \<times> event list \<times> Agent) outcome" where
  "planLoop e a idx [] tr = Return (None, tr, a)"
| "planLoop e a idx (step # steps) tr =
     (case GetPageContent (snapDrv e idx) of
        (pc, Some err) \<Rightarrow>
          Return (Some (''failed to get page content: '' @ err), tr @ [Snapshot idx], a)
      | (pc, None) \<Rightarrow>
          (case (if isBlockedPage pc then captchaWait e idx else None) of
             Some err \<Rightarrow>
               Return (Some (''CAPTCHA wait failed: '' @ err), tr @ [Snapshot idx], a)
           | None \<Rightarrow>
               let systemPrompt = planSystemPrompt;
                   userInput = planUserInput (currentTask a) step
                     (buildPageDescription pc (ListOpenPages (registry (snapDrv e idx))));
                   a1 = a\<lparr>contextMgr :=
                           AddMessage (AddMessage (contextMgr a) ''system'' systemPrompt)
                             ''user'' userInput\<rparr>
               in (case MakeDecision (reply e idx) (decode e) systemPrompt userInput of
                     (d, Some err) \<Rightarrow>
                       Return (Some (''MakeDecision failed for step '' @ itoa (int idx + 1) @
                                     '': '' @ err), tr @ [Snapshot idx], a1)
                   | (decision, None) \<Rightarrow>
                       (case executeAction (actDrv e idx) (confirm e idx) decision of
                          Panic \<Rightarrow> Panic
                        | Return (Some err, cs, m) \<Rightarrow>
                            planLoop e a1 (Suc idx) steps
                              (tr @ [Snapshot idx, Dispatch idx decision (Some err) cs])
                        | Return (None, cs, m) \<Rightarrow>
                            (case WaitForNavigation m (actDrv e idx) of
                               Panic \<Rightarrow> Panic
                             | Return w \<Rightarrow>
                                 planLoop e a1 (Suc idx) steps
                                   (tr @ [Snapshot idx, Dispatch idx decision None cs]))))))"

text \<open>
  The initial navigation of \<^verbatim>\<open>ExecuteTask\<close>: the error of \<^verbatim>\<open>Navigate\<close> ends the task,
  the error of the \<^verbatim>\<open>WaitForNavigation\<close> after it is only logged.
\<close>

definition initialNavigation :: "driver \<Rightarrow> string \<Rightarrow> error option outcome" where
  "initialNavigation d initialURL =
     (if initialURL \<noteq> [] \<and> initialURL \<noteq> ''about:blank''
      then (case Navigate d initialURL of
              (m, Some err) \<Rightarrow> Return (Some err)
            | (m, None) \<Rightarrow>
                (case WaitForNavigation m d of
                   Panic \<Rightarrow> Panic
                 | Return w \<Rightarrow> Return None))
      else Return None)"

definition ExecuteTask ::
  "env \<Rightarrow> Agent \<Rightarrow> string \<Rightarrow> string \<Rightarrow>
   (error option \<times> event list \<times> Agent) outcome option" where
  "ExecuteTask e a0 task initialURL =
     (let a = a0\<lparr>currentTask := task,
                  contextMgr := ResetTokenCounter (ClearContext (contextMgr a0))\<rparr>
      in case initialNavigation (startDrv e) initialURL of
           Panic \<Rightarrow> Some Panic
         | Return (Some err) \<Rightarrow>
             Some (Return (Some (''failed to navigate to initial URL: '' @ err), [], a))
         | Return None \<Rightarrow>
             (case GetPageContent (planDrv e) of
                (pc, Some err) \<Rightarrow>
                  Some (Return (Some (''failed to get page content for planning: '' @ err),
                                [], a))
              | (pageContent, None) \<Rightarrow>
                  let pageDesc = buildPageDescription pageContent
                                   (ListOpenPages (registry (planDrv e)))
                  in (case planTask e task pageDesc of
                        Inl err \<Rightarrow> fallbackLoop e (nat (maxIterations a)) 0 a []
                      | Inr steps \<Rightarrow> Some (planLoop e a 0 steps []))))"

text \<open>The iterations (or plan steps) that started, and the decisions that were
  dispatched, each with the iteration it belongs to.\<close>

definition attempts :: "event list \<Rightarrow> nat list" where
  "attempts tr = concat (map (\<lambda>ev. case ev of Snapshot i \<Rightarrow> [i] | Dispatch i d r cs \<Rightarrow> []) tr)"

definition dispatched :: "event list \<Rightarrow> (nat \<times> DecisionResponse) list" where
  "dispatched tr =
     concat (map (\<lambda>ev. case ev of Snapshot i \<Rightarrow> [] | Dispatch i d r cs \<Rightarrow> [(i, d)]) tr)"

text \<open>The error of a task run and its events, without the final agent state.\<close>

definition taskError ::
  "(error option \<times> event list \<times> Agent) outcome option \<Rightarrow> error option outcome option" where
  "taskError run =
     (case run of
        None \<Rightarrow> None
      | Some Panic \<Rightarrow> Some Panic
      | Some (Return (err, tr, a)) \<Rightarrow> Some (Return err))"

definition taskEvents :: "(error option \<times> event list \<times> Agent) outcome option \<Rightarrow> event list" where
  "taskEvents run =
     (case run of
        None \<Rightarrow> []
      | Some Panic \<Rightarrow> []
      | Some (Return (err, tr, a)) \<Rightarrow> tr)"

text \<open>
  The decision request of iteration \<open>i\<close> of the fallback loop and of plan step \<open>i\<close>, as
  the two loops build them from the task and the snapshot of that iteration, and the
  tokens that the fallback loop accounts for iteration \<open>i\<close>.
\<close>

definition iterPrompt :: "env \<Rightarrow> string \<Rightarrow> nat \<Rightarrow> string" where
  "iterPrompt e task i =
     iterUserInput task
       (buildPageDescription (fst (GetPageContent (snapDrv e i)))
          (ListOpenPages (registry (snapDrv e i))))"

definition iterDecision :: "env \<Rightarrow> string \<Rightarrow> nat \<Rightarrow> DecisionResponse \<times> error option" where
  "iterDecision e task i =
     MakeDecision (reply e i) (decode e) iterSystemPrompt (iterPrompt e task i)"

definition iterTokens :: "env \<Rightarrow> string \<Rightarrow> nat \<Rightarrow> int" where
  "iterTokens e task i =
     EstimateTokens iterSystemPrompt + EstimateTokens (iterPrompt e task i) +
     EstimateTokens (Reasoning (fst (iterDecision e task i)))"

definition stepDecision :: "env \<Rightarrow> string \<Rightarrow> nat \<Rightarrow> string \<Rightarrow> DecisionResponse \<times> error option" where
  "stepDecision e task i step =
     MakeDecision (reply e i) (decode e) planSystemPrompt
       (planUserInput task step
          (buildPageDescription (fst (GetPageContent (snapDrv e i)))
             (ListOpenPages (registry (snapDrv e i)))))"

text \<open>
  Example browsers. \<open>quietDriver\<close>: one open page, alive, every Playwright call
  succeeds, no notification, the page is empty. \<open>closingDriver\<close>: two open pages, and
  the active one is torn down during each call, so that Playwright reports
  \<^verbatim>\<open>Page closed\<close> and the close notification of that page arrives. \<open>lastTabDriver\<close>:
  the same with a single open page.
\<close>

definition quietDriver :: driver where
  "quietDriver =
     \<lparr>registry = NewManager tabA [], probeOK = True, recover = Unrecoverable ''no browser'',
      notifications = [],
      gotoErr = (\<lambda>u. None), clickErr = (\<lambda>s. None), fillErr = (\<lambda>s t. None),
      focusErr = (\<lambda>s. None), typeErr = (\<lambda>s t. None), pressErr = (\<lambda>k. None),
      loadStateErr = None,
      extracted = \<lparr>pcTitle = [], pcURL = [], Elements = [], MainText = []\<rparr>\<rparr>"

definition lastTabDriver :: driver where
  "lastTabDriver =
     quietDriver\<lparr>notifications := [PageClosed tabA],
                 gotoErr := (\<lambda>u. Some ''playwright: Page closed''),
                 clickErr := (\<lambda>s. Some ''playwright: Page closed''),
                 fillErr := (\<lambda>s t. Some ''playwright: Page closed''),
                 focusErr := (\<lambda>s. Some ''playwright: Page closed''),
                 typeErr := (\<lambda>s t. Some ''playwright: Page closed''),
                 pressErr := (\<lambda>k. Some ''playwright: Page closed'')\<rparr>"

definition closingDriver :: driver where
  "closingDriver = lastTabDriver\<lparr>registry := NewManager tabA [tabB]\<rparr>"

text \<open>
  Example collaborators. In \<open>quietEnv\<close> planning fails, the browser is the quiet one
  and the oracle answers every request with a well-formed decision to wait
  (\<open>waitDecision\<close>, not complete). \<open>garbledEnv\<close> plans two steps and answers every
  decision request with text that is not JSON.
\<close>

definition waitDecision :: DecisionResponse where
  "waitDecision = emptyDecision\<lparr>Action := ''wait''\<rparr>"

definition quietEnv :: env where
  \<open>quietEnv =
     \<lparr>reply = (\<lambda>i s u. Choice ''{"action":"wait"}''),
      decode = (\<lambda>s. Inr waitDecision),
      encode = (\<lambda>d. ''{"action":"wait","reasoning":"","is_complete":false,"needs_confirm":false}''),
      planTask = (\<lambda>t p. Inl ''failed to call OpenAI for planning: timeout''),
      startDrv = quietDriver, planDrv = quietDriver,
      snapDrv = (\<lambda>i. quietDriver), actDrv = (\<lambda>i. quietDriver),
      captchaWait = (\<lambda>i. None),
      confirm = (\<lambda>i a. (True, None))\<rparr>\<close>

definition garbledEnv :: env where
  "garbledEnv =
     quietEnv\<lparr>reply := (\<lambda>i s u. Choice ''I cannot decide''),
              decode := (\<lambda>s. Inl ''invalid character I looking for beginning of value''),
              planTask := (\<lambda>t p. Inr [''open the menu'', ''click the first entry''])\<rparr>"

text \<open>
  More example collaborators. \<open>stuckDriver\<close> is a browser on which every click times
  out. In \<open>planEnv\<close> the plan has two steps; the oracle answers the first step with a
  well-formed decision to click, and the click fails, and the second step with a
  well-formed decision to wait. In \<open>flakyEnv\<close> the plan has three steps and the oracle
  answers the first step with a well-formed decision and every later step with text
  that is not JSON.
\<close>

definition clickDecision :: DecisionResponse where
  "clickDecision = emptyDecision\<lparr>Action := ''click'', Selector := ''#menu''\<rparr>"

definition stuckDriver :: driver where
  "stuckDriver = quietDriver\<lparr>clickErr := (\<lambda>s. Some ''Timeout 30000ms exceeded'')\<rparr>"

definition planEnv :: env where
  \<open>planEnv =
     quietEnv\<lparr>reply := (\<lambda>i s u. if i = 0 then Choice ''{"action":"click","selector":"#menu"}''
                               else Choice ''{"action":"wait"}''),
              decode := (\<lambda>s. if s = ''{"action":"wait"}'' then Inr waitDecision
                             else Inr clickDecision),
              planTask := (\<lambda>t p. Inr [''open the menu'', ''wait for the list'']),
              actDrv := (\<lambda>i. stuckDriver)\<rparr>\<close>

definition flakyEnv :: env where
  \<open>flakyEnv =
     quietEnv\<lparr>reply := (\<lambda>i s u. if i = 0 then Choice ''{"action":"wait"}''
                               else Choice ''no idea''),
              decode := (\<lambda>s. if s = ''{"action":"wait"}'' then Inr waitDecision
                             else Inl ''invalid character o in literal null''),
              planTask := (\<lambda>t p. Inr [''open the menu'', ''click the first entry'',
                                       ''read the price''])\<rparr>\<close>

text \<open>
  The action of a step settles: \<^verbatim>\<open>executeAction\<close> does not panic, and when it returns
  \<^verbatim>\<open>nil\<close> the registry it leaves has an active page, the one that the
  \<^verbatim>\<open>WaitForNavigation\<close> of the plan loop reads next.
\<close>

definition settles ::
  "driver \<Rightarrow> (DestructiveAction \<Rightarrow> bool \<times> error option) \<Rightarrow> DecisionResponse \<Rightarrow> bool" where
  "settles d ask dec \<longleftrightarrow>
     (case executeAction d ask dec of
        Panic \<Rightarrow> False
      | Return (Some err, cs, m) \<Rightarrow> True
      | Return (None, cs, m) \<Rightarrow> page m \<noteq> None)"

text \<open>
  The decision passes the confirmation gate of \<^verbatim>\<open>executeAction\<close>: it is not flagged,
  or the confirmation is obtained and approves.
\<close>

definition passesGate ::
  "(DestructiveAction \<Rightarrow> bool \<times> error option) \<Rightarrow> DecisionResponse \<Rightarrow> bool" where
  "passesGate ask dec \<longleftrightarrow>
     (if NeedsConfirm dec
      then ask \<lparr>daType = Action dec, Description = Reasoning dec, Target = [],
                Severity = ''high''\<rparr> = (True, None)
      else True)"

text \<open>
  The registry that a command leaves when \<^verbatim>\<open>ensureBrowser\<close> has succeeded: the one of
  \<^verbatim>\<open>ensureBrowser\<close> with the page notifications of the command delivered.
\<close>

definition afterCommand :: "driver \<Rightarrow> Manager" where
  "afterCommand d =
     deliver (fst (ensureBrowser (registry d) (probeOK d) (recover d))) (notifications d)"

text \<open>
  The decision is a navigate, click, fill, focus, type or press with its parameters
  (the action names as \<^verbatim>\<open>executeAction\<close> reads them), and the Playwright call it leads
  to fails on browser \<open>d\<close> with the message \<open>msg\<close>.
\<close>

definition failsWith :: "driver \<Rightarrow> DecisionResponse \<Rightarrow> error \<Rightarrow> bool" where
  "failsWith d dec msg \<longleftrightarrow>
     (let action = ToLower (Action dec)
      in action = ''navigate'' \<and> URL dec \<noteq> [] \<and>
           gotoErr d (normalizeURL (URL dec)) = Some msg
         \<or> action = ''click'' \<and> Selector dec \<noteq> [] \<and> clickErr d (Selector dec) = Some msg
         \<or> (action = ''fill'' \<or> action = ''input'') \<and> Selector dec \<noteq> [] \<and> Text dec \<noteq> [] \<and>
           fillErr d (Selector dec) (Text dec) = Some msg
         \<or> action = ''focus'' \<and> Selector dec \<noteq> [] \<and> focusErr d (Selector dec) = Some msg
         \<or> action = ''type'' \<and> Selector dec \<noteq> [] \<and> Text dec \<noteq> [] \<and>
           typeErr d (Selector dec) (Text dec) = Some msg
         \<or> (action = ''press'' \<or> action = ''keypress'' \<or> action = ''key'') \<and> Text dec \<noteq> [] \<and>
           pressErr d (Text dec) = Some msg)"

text \<open>
  In \<open>closingEnv\<close> planning fails, the oracle answers every request with a well-formed
  decision to click, and the active one of two pages is torn down during the click.
\<close>

definition closingEnv :: env where
  "closingEnv =
     quietEnv\<lparr>decode := (\<lambda>s. Inr clickDecision), actDrv := (\<lambda>i. closingDriver)\<rparr>"

section \<open>Verification: token counter\<close>

lemma wrap64_id: "- (2 ^ 63) \<le> x \<Longrightarrow> x < 2 ^ 63 \<Longrightarrow> wrap64 x = x"
  by (simp add: wrap64_def)

lemma Add_fields:
  "PromptTokens (fst (Add tc p c)) = wrap64 (PromptTokens tc + p)"
  "CompletionTokens (fst (Add tc p c)) = wrap64 (CompletionTokens tc + c)"
  "TotalTokens (fst (Add tc p c)) =
     wrap64 (wrap64 (PromptTokens tc + p) + wrap64 (CompletionTokens tc + c))"
  "MaxTokens (fst (Add tc p c)) = MaxTokens tc"
  by (simp_all add: Add_def Let_def)

lemma Add_error_iff:
  "snd (Add tc p c) = None \<longleftrightarrow> TotalTokens (fst (Add tc p c)) \<le> MaxTokens tc"
  by (simp add: Add_def Let_def)

text \<open>
  C1. The claim: the running total never exceeds the maximum after an \<^verbatim>\<open>Add\<close>, and an
  \<^verbatim>\<open>Add\<close> whose new total would exceed the maximum reports failure and leaves the
  prompt, completion and total counters as they were. The code at a fresh counter with
  maximum 1000 and \<^verbatim>\<open>Add(300, 800)\<close>: the call reports failure, yet the counters are
  300, 800 and 1100 afterwards, the total is above the maximum and
  \<^verbatim>\<open>RemainingTokens\<close> is negative.
\<close>

theorem C1_Add_failure_mutates:
  "snd (Add (NewTokenCounter 1000) 300 800) = Some ''token limit exceeded: 1100/1000''
   \<and> PromptTokens (fst (Add (NewTokenCounter 1000) 300 800)) = 300
   \<and> CompletionTokens (fst (Add (NewTokenCounter 1000) 300 800)) = 800
   \<and> TotalTokens (fst (Add (NewTokenCounter 1000) 300 800)) = 1100
   \<and> MaxTokens (fst (Add (NewTokenCounter 1000) 300 800)) = 1000
   \<and> RemainingTokens (fst (Add (NewTokenCounter 1000) 300 800)) = - 100"
  by (simp add: Add_def NewTokenCounter_def RemainingTokens_def wrap64_def Let_def itoa_def
      itoa_nat.simps)

section \<open>Verification: conversation history\<close>

lemma keep_recent_drop: "keep_recent n k i ms = drop (nat (n - k - int i)) ms"
proof (induction ms arbitrary: i)
  case Nil
  show ?case by simp
next
  case (Cons m ms)
  show ?case
  proof (cases "int i \<ge> n - k")
    case True
    then show ?thesis using Cons [of "Suc i"] by simp
  next
    case False
    then have "nat (n - k - int i) = Suc (nat (n - k - int (Suc i)))" by simp
    then show ?thesis using False Cons [of "Suc i"] by simp
  qed
qed

lemma AddMessage_messages:
  assumes "0 \<le> maxHistorySize cm"
  shows "messages (AddMessage cm r t) =
         drop (Suc (length (messages cm)) - nat (maxHistorySize cm))
           (messages cm @ [\<lparr>Role = r, Content = t\<rparr>])"
proof (cases "int (Suc (length (messages cm))) > maxHistorySize cm")
  case True
  have "nat (int (Suc (length (messages cm))) - maxHistorySize cm - int 0) =
        Suc (length (messages cm)) - nat (maxHistorySize cm)"
    using assms by simp
  then show ?thesis using True
    by (simp add: AddMessage_def Let_def keep_recent_drop del: of_nat_Suc)
next
  case False
  then have "Suc (length (messages cm)) - nat (maxHistorySize cm) = 0" by simp
  then show ?thesis using False by (simp add: AddMessage_def Let_def del: of_nat_Suc)
qed

lemma AddMessage_maxHistorySize [simp]:
  "maxHistorySize (AddMessage cm r t) = maxHistorySize cm"
  by (simp add: AddMessage_def Let_def)

lemma add_messages_maxHistorySize [simp]:
  "maxHistorySize (add_messages cm xs) = maxHistorySize cm"
  unfolding add_messages_def
  by (induction xs arbitrary: cm) (simp_all add: case_prod_beta)

lemma add_messages_snoc:
  "add_messages cm (xs @ [x]) = AddMessage (add_messages cm xs) (fst x) (snd x)"
  by (simp add: add_messages_def case_prod_beta)

lemma add_messages_window:
  assumes "0 \<le> maxHistorySize cm" and "length (messages cm) \<le> nat (maxHistorySize cm)"
  shows "messages (add_messages cm xs) =
         drop (length (messages cm) + length xs - nat (maxHistorySize cm))
           (messages cm @ map entry xs)"
proof (induction xs rule: rev_induct)
  case Nil
  show ?case using assms by (simp add: add_messages_def)
next
  case (snoc x xs)
  define K where "K = nat (maxHistorySize cm)"
  define al where "al = messages cm @ map entry xs"
  define d where "d = length (messages cm) + length xs - K"
  define prev where "prev = messages (add_messages cm xs)"
  have prev: "prev = drop d al"
    using snoc by (simp add: prev_def d_def al_def K_def)
  have lal: "length al = length (messages cm) + length xs"
    by (simp add: al_def)
  have "0 \<le> maxHistorySize (add_messages cm xs)"
    using assms(1) by simp
  then have "messages (AddMessage (add_messages cm xs) (fst x) (snd x)) =
        drop (Suc (length prev) - K) (prev @ [entry x])"
    unfolding prev_def K_def entry_def
    by (simp only: AddMessage_messages add_messages_maxHistorySize)
  then have "messages (add_messages cm (xs @ [x])) =
        drop (Suc (length prev) - K) (drop d al @ [entry x])"
    by (simp only: add_messages_snoc prev)
  also have "drop d al @ [entry x] = drop d (al @ [entry x])"
    using lal by (simp add: d_def)
  also have "drop (Suc (length prev) - K) (drop d (al @ [entry x])) =
             drop (Suc (length prev) - K + d) (al @ [entry x])"
    by (simp only: drop_drop)
  also have "Suc (length prev) - K + d = length (messages cm) + length (xs @ [x]) - K"
    using lal by (simp add: prev d_def)
  finally show ?case by (simp add: al_def K_def)
qed

text \<open>
  C6. For a conversation history created with a maximum entry count \<open>K\<close> (a count, so
  \<open>0 \<le> K\<close>), after any sequence of \<^verbatim>\<open>AddMessage\<close> calls the entry count is at most
  \<open>K\<close> and the retained entries are exactly the \<open>K\<close> most recently appended messages in
  arrival order, or all of them when fewer than \<open>K\<close> were appended: a sliding window,
  whatever the roles.
\<close>

theorem C6_AddMessage_sliding_window:
  assumes "0 \<le> K"
  shows "int (length (messages (add_messages (NewContextManager M K) xs))) \<le> K
       \<and> messages (add_messages (NewContextManager M K) xs) =
           drop (length xs - nat K) (map entry xs)"
proof -
  have m: "messages (add_messages (NewContextManager M K) xs) =
           drop (length xs - nat K) (map entry xs)"
    using add_messages_window [of "NewContextManager M K" xs] assms
    by (simp add: NewContextManager_def)
  have "length (drop (length xs - nat K) (map entry xs)) \<le> nat K" by simp
  then have "int (length (drop (length xs - nat K) (map entry xs))) \<le> K"
    using assms by linarith
  with m show ?thesis by simp
qed

theorem C6_witness:
  "(0::int) \<le> 2 \<and> int (length (messages (add_messages (NewContextManager 8000 2)
      [(''system'', ''a''), (''user'', ''b''), (''assistant'', ''c'')]))) \<le> 2
   \<and> messages (add_messages (NewContextManager 8000 2)
      [(''system'', ''a''), (''user'', ''b''), (''assistant'', ''c'')]) =
      [\<lparr>Role = ''user'', Content = ''b''\<rparr>, \<lparr>Role = ''assistant'', Content = ''c''\<rparr>]"
  using C6_AddMessage_sliding_window [of 2 8000 "[(''system'', ''a''), (''user'', ''b''), (''assistant'', ''c'')]"]
  by (simp add: entry_def)

section \<open>Verification: the page registry\<close>

lemma setActivePage_fields [simp]:
  "pages (setActivePage m pid b) = pages m"
  "pageOrder (setActivePage m pid b) = pageOrder m"
  "pageListeners (setActivePage m pid b) = pageListeners m"
  by (simp_all add: setActivePage_def split: option.split)

lemma setActivePage_active:
  "activePageID (setActivePage m pid b) = (if pid \<in> dom (pages m) then pid else activePageID m)"
  by (auto simp: setActivePage_def split: option.split)

lemma setActivePage_page:
  "page (setActivePage m pid b) = (if pid \<in> dom (pages m) then pages m pid else page m)"
  by (auto simp: setActivePage_def split: option.split)

lemma setActivePage_inv: "registry_inv m \<Longrightarrow> registry_inv (setActivePage m pid b)"
  by (simp add: registry_inv_def setActivePage_active)

lemma attachPageListeners_fields [simp]:
  "pages (attachPageListeners m pg) = pages m"
  "pageOrder (attachPageListeners m pg) = pageOrder m"
  "activePageID (attachPageListeners m pg) = activePageID m"
  "page (attachPageListeners m pg) = page m"
  by (simp_all add: attachPageListeners_def split: option.split)

lemma attachPageListeners_inv:
  "registry_inv (attachPageListeners m pg) = registry_inv m"
  by (simp add: registry_inv_def)

lemma registerPage_inv: "registry_inv m \<Longrightarrow> registry_inv (registerPage m pg activate)"
proof (cases pg)
  case None
  then show "registry_inv m \<Longrightarrow> ?thesis" by (simp add: registerPage_def)
next
  case (Some p)
  assume inv: "registry_inv m"
  show ?thesis
  proof (cases "pages m (pageIdentifier p) = None")
    case False
    then show ?thesis using inv Some by (auto simp: registerPage_def)
  next
    case True
    define m1 where "m1 = m\<lparr>pages := (pages m)(pageIdentifier p \<mapsto> p),
                              pageOrder := pageOrder m @ [pageIdentifier p]\<rparr>"
    have "pageIdentifier p \<notin> set (pageOrder m)"
      using inv True by (auto simp: registry_inv_def)
    then have "registry_inv m1"
      using inv by (auto simp: registry_inv_def m1_def)
    then have "registry_inv (attachPageListeners m1 (Some p))"
      by (simp add: attachPageListeners_inv)
    then show ?thesis using True Some
      by (simp add: registerPage_def Let_def m1_def [symmetric] setActivePage_inv)
  qed
qed

lemma handlePageClosed_inv: "registry_inv m \<Longrightarrow> registry_inv (handlePageClosed m pg)"
proof (cases pg)
  case None
  then show "registry_inv m \<Longrightarrow> ?thesis" by (simp add: handlePageClosed_def)
next
  case (Some p)
  assume inv: "registry_inv m"
  define m1 where "m1 = m\<lparr>pageListeners := pageListeners m - {pageIdentifier p},
                     pages := (pages m)(pageIdentifier p := None),
                     pageOrder := remove1 (pageIdentifier p) (pageOrder m)\<rparr>"
  have set1: "set (pageOrder m1) = dom (pages m1)" and d1: "distinct (pageOrder m1)"
    using inv by (auto simp: registry_inv_def m1_def)
  show ?thesis
  proof (cases "activePageID m = pageIdentifier p")
    case True
    have "registry_inv (m1\<lparr>activePageID := [], page := None\<rparr>)"
      using set1 d1 by (simp add: registry_inv_def)
    then show ?thesis using True Some
      by (simp add: handlePageClosed_def Let_def m1_def [symmetric] setActivePage_inv)
  next
    case False
    then have "registry_inv m1"
      using inv set1 d1 by (auto simp: registry_inv_def m1_def)
    then show ?thesis using False Some
      by (simp add: handlePageClosed_def Let_def m1_def [symmetric])
  qed
qed

lemma cleanupCurrentContext_inv: "registry_inv (cleanupCurrentContext m)"
  by (simp add: registry_inv_def cleanupCurrentContext_def)

lemma registerAll_inv: "registry_inv a \<Longrightarrow> registry_inv (registerAll a ps)"
  by (induction ps arbitrary: a) (simp_all add: registerPage_inv)

lemma rebuildPageTracking_inv: "registry_inv m \<Longrightarrow> registry_inv (rebuildPageTracking m ctx)"
proof (cases ctx)
  case None
  then show "registry_inv m \<Longrightarrow> ?thesis" by (simp add: rebuildPageTracking_def)
next
  case (Some ps)
  have "registry_inv (m\<lparr>pages := Map.empty, pageOrder := [], page := None, activePageID := [],
                     pageListeners := {}\<rparr>)"
    by (simp add: registry_inv_def)
  then show ?thesis using Some
    by (simp add: rebuildPageTracking_def Let_def registerAll_inv setActivePage_inv)
qed

lemma rebuildPageTracking_inv': "registry_inv (rebuildPageTracking m (Some ps))"
proof -
  have "registry_inv (m\<lparr>pages := Map.empty, pageOrder := [], page := None, activePageID := [],
                     pageListeners := {}\<rparr>)"
    by (simp add: registry_inv_def)
  then show ?thesis
    by (simp add: rebuildPageTracking_def Let_def registerAll_inv setActivePage_inv)
qed

lemma ensureBrowser_inv: "registry_inv m \<Longrightarrow> registry_inv (fst (ensureBrowser m probe r))"
  by (cases r) (simp_all add: ensureBrowser_def rebuildPageTracking_inv' cleanupCurrentContext_inv)

lemma findPage_no_panic:
  "set ids \<subseteq> dom ps \<Longrightarrow> \<exists>x. findPage ps lower ids = Return x"
  by (induction ids) auto

lemma SwitchToPage_inv:
  assumes "registry_inv m"
  shows "\<exists>m' e. SwitchToPage m probe r target = Return (m', e) \<and> registry_inv m'"
proof -
  obtain m1 e1 where eb: "ensureBrowser m probe r = (m1, e1)" by (cases "ensureBrowser m probe r")
  have inv1: "registry_inv m1" using ensureBrowser_inv [OF assms, of probe r] eb by simp
  then have "set (pageOrder m1) \<subseteq> dom (pages m1)" by (simp add: registry_inv_def)
  then obtain x where fp: "findPage (pages m1) (ToLower (TrimSpace target)) (pageOrder m1) = Return x"
    using findPage_no_panic by blast
  show ?thesis using eb inv1 fp
    by (cases e1; cases x; cases "Atoi (TrimSpace target)")
      (simp_all add: SwitchToPage_def Let_def setActivePage_inv)
qed

lemma handlePageClosed_active:
  assumes "registry_inv m" and "activePageID m = pageIdentifier p"
  shows "pageOrder (handlePageClosed m (Some p)) = remove1 (pageIdentifier p) (pageOrder m)"
    and "activePageID (handlePageClosed m (Some p)) =
          (if remove1 (pageIdentifier p) (pageOrder m) = [] then []
           else last (remove1 (pageIdentifier p) (pageOrder m)))"
    and "page (handlePageClosed m (Some p)) =
          (if remove1 (pageIdentifier p) (pageOrder m) = [] then None
           else pages m (last (remove1 (pageIdentifier p) (pageOrder m))))"
    and "remove1 (pageIdentifier p) (pageOrder m) \<noteq> [] \<Longrightarrow>
           pages m (last (remove1 (pageIdentifier p) (pageOrder m))) \<noteq> None"
proof -
  let ?rest = "remove1 (pageIdentifier p) (pageOrder m)"
  have in_dom: "?rest \<noteq> [] \<Longrightarrow> last ?rest \<in> dom ((pages m)(pageIdentifier p := None))"
  proof -
    assume ne: "?rest \<noteq> []"
    then have "last ?rest \<in> set ?rest" by simp
    then show ?thesis using assms(1) by (auto simp: registry_inv_def)
  qed
  show "pageOrder (handlePageClosed m (Some p)) = ?rest"
    using assms(2) by (simp add: handlePageClosed_def Let_def)
  show "activePageID (handlePageClosed m (Some p)) = (if ?rest = [] then [] else last ?rest)"
    using assms(2) in_dom by (simp add: handlePageClosed_def Let_def setActivePage_active)
  show "page (handlePageClosed m (Some p)) = (if ?rest = [] then None else pages m (last ?rest))"
    using assms(2) in_dom by (auto simp: handlePageClosed_def Let_def setActivePage_page)
  show "?rest \<noteq> [] \<Longrightarrow> pages m (last ?rest) \<noteq> None"
    using in_dom by (auto split: if_splits)
qed

text \<open>
  C5. The active-page invariant of the session registry. The registry built by
  \<^verbatim>\<open>NewManager\<close> satisfies \<open>registry_inv\<close> (the active page id, when set, is the id of
  a registered page, and the order list enumerates the registered pages), and
  registering a page, closing a page, switching tabs and rebuilding the registry all
  preserve it. When the page that closes is the active one, the active page becomes
  the last entry of the remaining order list, that is the most recently opened
  remaining page, which is registered; when no page remains the active slot is empty.
\<close>

theorem C5_active_page_invariant:
  "registry_inv (NewManager p ps) \<and>
   (registry_inv m \<longrightarrow>
      registry_inv (registerPage m pg activate) \<and>
      registry_inv (handlePageClosed m pg) \<and>
      registry_inv (rebuildPageTracking m ctx) \<and>
      (\<exists>m' e. SwitchToPage m probe r target = Return (m', e) \<and> registry_inv m') \<and>
      (activePageID m = pageIdentifier q \<longrightarrow>
         pageOrder (handlePageClosed m (Some q)) = remove1 (pageIdentifier q) (pageOrder m) \<and>
         activePageID (handlePageClosed m (Some q)) =
           (if remove1 (pageIdentifier q) (pageOrder m) = [] then []
            else last (remove1 (pageIdentifier q) (pageOrder m))) \<and>
         page (handlePageClosed m (Some q)) =
           (if remove1 (pageIdentifier q) (pageOrder m) = [] then None
            else pages m (last (remove1 (pageIdentifier q) (pageOrder m)))) \<and>
         (remove1 (pageIdentifier q) (pageOrder m) \<noteq> [] \<longrightarrow>
            pages m (last (remove1 (pageIdentifier q) (pageOrder m))) \<noteq> None)))"
proof (intro conjI impI)
  show "registry_inv (NewManager p ps)"
    by (simp add: NewManager_def rebuildPageTracking_inv')
next
  assume "registry_inv m"
  then show "registry_inv (registerPage m pg activate)" by (rule registerPage_inv)
next
  assume "registry_inv m"
  then show "registry_inv (handlePageClosed m pg)" by (rule handlePageClosed_inv)
next
  assume "registry_inv m"
  then show "registry_inv (rebuildPageTracking m ctx)" by (rule rebuildPageTracking_inv)
next
  assume "registry_inv m"
  then show "\<exists>m' e. SwitchToPage m probe r target = Return (m', e) \<and> registry_inv m'"
    by (rule SwitchToPage_inv)
next
  assume "registry_inv m" "activePageID m = pageIdentifier q"
  then show "pageOrder (handlePageClosed m (Some q)) = remove1 (pageIdentifier q) (pageOrder m)"
    by (rule handlePageClosed_active)
next
  assume "registry_inv m" "activePageID m = pageIdentifier q"
  then show "activePageID (handlePageClosed m (Some q)) =
           (if remove1 (pageIdentifier q) (pageOrder m) = [] then []
            else last (remove1 (pageIdentifier q) (pageOrder m)))"
    by (rule handlePageClosed_active)
next
  assume "registry_inv m" "activePageID m = pageIdentifier q"
  then show "page (handlePageClosed m (Some q)) =
           (if remove1 (pageIdentifier q) (pageOrder m) = [] then None
            else pages m (last (remove1 (pageIdentifier q) (pageOrder m))))"
    by (rule handlePageClosed_active)
next
  assume "registry_inv m" "activePageID m = pageIdentifier q"
    "remove1 (pageIdentifier q) (pageOrder m) \<noteq> []"
  then show "pages m (last (remove1 (pageIdentifier q) (pageOrder m))) \<noteq> None"
    by (rule handlePageClosed_active)
qed

lemma NewManager_tabs:
  "pageOrder (NewManager tabA [tabB, tabC]) = [handle tabA, handle tabB, handle tabC]"
  "activePageID (NewManager tabA [tabB, tabC]) = handle tabA"
  "pageOrder (NewManager tabA []) = [handle tabA]"
  "activePageID (NewManager tabA []) = handle tabA"
  by (simp_all add: NewManager_def rebuildPageTracking_def emptyManager_def registerPage_def
      attachPageListeners_def setActivePage_def pageIdentifier_def Let_def tabA_def tabB_def
      tabC_def)

theorem C5_witness:
  "registry_inv (NewManager tabA [tabB, tabC]) \<and>
   activePageID (NewManager tabA [tabB, tabC]) = pageIdentifier tabA \<and>
   activePageID (handlePageClosed (NewManager tabA [tabB, tabC]) (Some tabA)) = handle tabC \<and>
   page (handlePageClosed (NewManager tabA [tabB, tabC]) (Some tabA)) =
     pages (NewManager tabA [tabB, tabC]) (handle tabC) \<and>
   pages (NewManager tabA [tabB, tabC]) (handle tabC) \<noteq> None \<and>
   registry_inv (NewManager tabA []) \<and>
   activePageID (NewManager tabA []) = pageIdentifier tabA \<and>
   activePageID (handlePageClosed (NewManager tabA []) (Some tabA)) = [] \<and>
   page (handlePageClosed (NewManager tabA []) (Some tabA)) = None"
  using C5_active_page_invariant [of tabA "[tabB, tabC]" "NewManager tabA [tabB, tabC]"
      None False None True "Unrecoverable []" "[]" tabA]
    C5_active_page_invariant [of tabA "[]" "NewManager tabA []"
      None False None True "Unrecoverable []" "[]" tabA]
  by (simp add: NewManager_tabs pageIdentifier_def)

section \<open>Verification: decisions and browser commands\<close>

lemma ToLower_literals [simp]:
  "ToLower ''navigate'' = ''navigate''" "ToLower ''click'' = ''click''"
  "ToLower ''fill'' = ''fill''" "ToLower ''focus'' = ''focus''"
  "ToLower ''type'' = ''type''" "ToLower ''press'' = ''press''"
  "ToLower ''wait'' = ''wait''" "ToLower ''error'' = ''error''"
  by (simp_all add: ToLower_def toLowerChar_def)

text \<open>A successful \<^verbatim>\<open>ensureBrowser\<close> leaves an active page, which the Playwright call
  of the command then reads.\<close>

lemma registerPage_page: "page m \<noteq> None \<Longrightarrow> page (registerPage m pg activate) \<noteq> None"
  by (cases pg)
    (auto simp: registerPage_def Let_def setActivePage_def attachPageListeners_def
      split: option.split)

lemma registerAll_page: "page m \<noteq> None \<Longrightarrow> page (registerAll m ps) \<noteq> None"
proof (induction ps arbitrary: m)
  case Nil
  then show ?case by simp
next
  case (Cons p ps)
  from Cons.IH [OF registerPage_page [OF Cons.prems]] show ?case by simp
qed

lemma initialNavigation_none [simp]: "initialNavigation d [] = Return None"
  by (simp add: initialNavigation_def)

lemma ensureBrowser_page:
  assumes "snd (ensureBrowser m probe r) = None"
  shows "page (fst (ensureBrowser m probe r)) \<noteq> None"
proof (cases "IsBrowserAlive m probe")
  case True
  then show ?thesis by (simp add: ensureBrowser_def IsBrowserAlive_def)
next
  case False
  then obtain p ps where r: "r = Recovered p ps"
    using assms by (cases r) (simp_all add: ensureBrowser_def)
  define m0 where "m0 = (cleanupCurrentContext m)\<lparr>pages := Map.empty, pageOrder := [],
      page := None, activePageID := [], pageListeners := {}\<rparr>"
  have "page (registerPage m0 (Some p) (length (pageOrder m0) = 0 \<and> activePageID m0 = []))
          \<noteq> None"
    by (simp add: m0_def registerPage_def Let_def setActivePage_def attachPageListeners_def
        cleanupCurrentContext_def)
  then have "page (registerAll m0 (p # ps)) \<noteq> None"
    by (simp add: registerAll_page)
  then have "page (rebuildPageTracking (cleanupCurrentContext m) (Some (p # ps))) \<noteq> None"
    unfolding rebuildPageTracking_def Let_def m0_def [symmetric]
    by (simp add: setActivePage_def split: option.split)
  then show ?thesis using False r by (simp add: ensureBrowser_def)
qed

text \<open>
  C10. In \<^verbatim>\<open>executeAction\<close>, for a decision without the confirmation flag, a recognised
  action whose required parameter is absent makes no browser call and returns
  success (a \<^verbatim>\<open>nil\<close> error): navigate with an empty url, click or focus with an empty
  selector, fill or type with an empty selector or an empty text, press with an
  empty text.
\<close>

theorem C10_missing_parameter_is_noop:
  assumes "\<not> NeedsConfirm dec"
    and "Action dec = ''navigate'' \<and> URL dec = []
       \<or> (Action dec = ''click'' \<or> Action dec = ''focus'') \<and> Selector dec = []
       \<or> (Action dec = ''fill'' \<or> Action dec = ''type'') \<and> (Selector dec = [] \<or> Text dec = [])
       \<or> Action dec = ''press'' \<and> Text dec = []"
  shows "executeAction d ask dec = Return (None, [], registry d)"
  using assms by (auto simp: executeAction_def dispatch_def)

theorem C10_witness:
  "\<not> NeedsConfirm (emptyDecision\<lparr>Action := ''fill'', Selector := ''#name''\<rparr>)
   \<and> Action (emptyDecision\<lparr>Action := ''fill'', Selector := ''#name''\<rparr>) = ''fill''
   \<and> Text (emptyDecision\<lparr>Action := ''fill'', Selector := ''#name''\<rparr>) = []
   \<and> executeAction closingDriver (\<lambda>a. (False, None))
        (emptyDecision\<lparr>Action := ''fill'', Selector := ''#name''\<rparr>) =
      Return (None, [], registry closingDriver)"
  using C10_missing_parameter_is_noop
    [of "emptyDecision\<lparr>Action := ''fill'', Selector := ''#name''\<rparr>" closingDriver
      "\<lambda>a. (False, None)"]
  by (simp add: emptyDecision_def)

lemma AddMessage_tokenCounter [simp]: "tokenCounter (AddMessage cm r t) = tokenCounter cm"
  by (simp add: AddMessage_def Let_def)

lemma RemoveOldest_tokenCounter [simp]: "tokenCounter (RemoveOldest cm n) = tokenCounter cm"
  by (simp add: RemoveOldest_def)

lemma makeRoom_room: "CanAddTokens (tokenCounter cm) needed \<Longrightarrow> makeRoom cm needed = Some cm"
  by (simp add: makeRoom.simps)

lemma quietDriver_alive:
  "ensureBrowser (registry quietDriver) (probeOK quietDriver) (recover quietDriver) =
     (NewManager tabA [], None)"
  by (simp add: quietDriver_def ensureBrowser_def IsBrowserAlive_def NewManager_def
      rebuildPageTracking_def emptyManager_def registerPage_def attachPageListeners_def
      setActivePage_def pageIdentifier_def Let_def)

lemma pageClosed_playwright: "pageClosed ''playwright: Page closed''"
  by (simp add: pageClosed_def HasPrefix_def)

lemma Contains_page_closed:
  "Contains (''page closed during navigation (possibly due to CAPTCHA)'' @
             '' - retrying may help'') ''page closed''"
  by (simp add: HasPrefix_def)

lemma quietDriver_snapshot:
  "GetPageContent quietDriver = (\<lparr>pcTitle = [], pcURL = [], Elements = [], MainText = []\<rparr>, None)"
  by (simp add: GetPageContent_def quietDriver_alive) (simp add: quietDriver_def)

lemma empty_page_not_blocked:
  "\<not> isBlockedPage \<lparr>pcTitle = [], pcURL = [], Elements = [], MainText = []\<rparr>"
  by (simp add: isBlockedPage_def blockedPatterns_def ToLower_def)

lemma length_iterSystemPrompt: "length iterSystemPrompt = 1002"
  by (simp add: iterSystemPrompt_def)

lemma length_iterUserInput:
  "length (iterUserInput task pd) = 559 + length task + length pd"
  by (simp add: iterUserInput_def)

lemma length_empty_description:
  "length (buildPageDescription \<lparr>pcTitle = [], pcURL = [], Elements = [], MainText = []\<rparr>
             (ListOpenPages (NewManager tabA []))) = 84"
  by (simp add: buildPageDescription_def ListOpenPages_def NewManager_tabs listTabs.simps
      NewManager_def rebuildPageTracking_def emptyManager_def registerPage_def
      attachPageListeners_def setActivePage_def pageIdentifier_def Let_def tabA_def itoa_def
      itoa_nat.simps)

lemma MakeDecision_malformed:
  assumes "chat sp ui = Choice raw" and "dec (stripFence raw) = Inl perr"
  shows "MakeDecision chat dec sp ui =
           (emptyDecision\<lparr>Action := ''error'', Reasoning := raw, IsComplete := False\<rparr>,
            Some (''failed to parse decision JSON: '' @ perr))"
  using assms by (simp add: MakeDecision_def)




section \<open>Verification: the task orchestrator\<close>

lemma attempts_simps [simp]:
  "attempts [] = []"
  "attempts (tr @ tr') = attempts tr @ attempts tr'"
  "attempts (Snapshot i # tr) = i # attempts tr"
  "attempts (Dispatch i d r cs # tr) = attempts tr"
  by (simp_all add: attempts_def)

lemma dispatched_simps [simp]:
  "dispatched [] = []"
  "dispatched (tr @ tr') = dispatched tr @ dispatched tr'"
  "dispatched (Snapshot i # tr) = dispatched tr"
  "dispatched (Dispatch i d r cs # tr) = (i, d) # dispatched tr"
  by (simp_all add: dispatched_def)

lemma planLoop_all_steps:
  assumes "\<forall>j<length steps.
             snd (GetPageContent (snapDrv e (i + j))) = None \<and>
             (isBlockedPage (fst (GetPageContent (snapDrv e (i + j)))) \<longrightarrow>
                captchaWait e (i + j) = None) \<and>
             snd (stepDecision e (currentTask a) (i + j) (steps ! j)) = None \<and>
             settles (actDrv e (i + j)) (confirm e (i + j))
               (fst (stepDecision e (currentTask a) (i + j) (steps ! j)))"
  shows "\<exists>tr' a'. planLoop e a i steps tr = Return (None, tr', a') \<and>
           attempts tr' = attempts tr @ [i..<i + length steps] \<and>
           dispatched tr' = dispatched tr @
             map (\<lambda>j. (i + j, fst (stepDecision e (currentTask a) (i + j) (steps ! j))))
               [0..<length steps]"
  using assms
proof (induction steps arbitrary: i a tr)
  case Nil
  show ?case by simp
next
  case (Cons step steps)
  define dec where "dec = fst (stepDecision e (currentTask a) i step)"
  from Cons.prems have h0:
    "snd (GetPageContent (snapDrv e i)) = None"
    "isBlockedPage (fst (GetPageContent (snapDrv e i))) \<longrightarrow> captchaWait e i = None"
    "snd (stepDecision e (currentTask a) i step) = None"
    "settles (actDrv e i) (confirm e i) dec"
    unfolding dec_def by force+
  obtain pc where g: "GetPageContent (snapDrv e i) = (pc, None)"
    using h0(1) by (cases "GetPageContent (snapDrv e i)") simp
  have md: "MakeDecision (reply e i) (decode e) planSystemPrompt
              (planUserInput (currentTask a) step
                 (buildPageDescription pc (ListOpenPages (registry (snapDrv e i))))) =
            (dec, None)"
    using h0(3) g by (simp add: stepDecision_def dec_def prod_eq_iff)
  obtain r cs m where ex: "executeAction (actDrv e i) (confirm e i) dec = Return (r, cs, m)"
    and pg: "r = None \<longrightarrow> page m \<noteq> None"
    using h0(4) by (auto simp: settles_def split: outcome.splits option.splits)
  define a1 where "a1 = a\<lparr>contextMgr :=
        AddMessage (AddMessage (contextMgr a) ''system'' planSystemPrompt) ''user''
          (planUserInput (currentTask a) step
             (buildPageDescription pc (ListOpenPages (registry (snapDrv e i)))))\<rparr>"
  have task1: "currentTask a1 = currentTask a" by (simp add: a1_def)
  have step: "planLoop e a i (step # steps) tr =
              planLoop e a1 (Suc i) steps (tr @ [Snapshot i, Dispatch i dec r cs])"
  proof (cases r)
    case None
    then obtain p where "page m = Some p" using pg by auto
    then have "\<exists>w. WaitForNavigation m (actDrv e i) = Return w"
      by (simp add: WaitForNavigation_def split: option.split)
    then obtain w where "WaitForNavigation m (actDrv e i) = Return w" ..
    then show ?thesis
      using h0(2) g None by (simp add: Let_def md ex a1_def)
  next
    case (Some err)
    then show ?thesis
      using h0(2) g by (simp add: Let_def md ex a1_def)
  qed
  have "\<forall>j<length steps.
          snd (GetPageContent (snapDrv e (Suc i + j))) = None \<and>
          (isBlockedPage (fst (GetPageContent (snapDrv e (Suc i + j)))) \<longrightarrow>
             captchaWait e (Suc i + j) = None) \<and>
          snd (stepDecision e (currentTask a1) (Suc i + j) (steps ! j)) = None \<and>
          settles (actDrv e (Suc i + j)) (confirm e (Suc i + j))
            (fst (stepDecision e (currentTask a1) (Suc i + j) (steps ! j)))"
  proof (intro allI impI)
    fix j assume "j < length steps"
    then have "Suc j < length (step # steps)" by simp
    from Cons.prems [rule_format, OF this]
    show "snd (GetPageContent (snapDrv e (Suc i + j))) = None \<and>
          (isBlockedPage (fst (GetPageContent (snapDrv e (Suc i + j)))) \<longrightarrow>
             captchaWait e (Suc i + j) = None) \<and>
          snd (stepDecision e (currentTask a1) (Suc i + j) (steps ! j)) = None \<and>
          settles (actDrv e (Suc i + j)) (confirm e (Suc i + j))
            (fst (stepDecision e (currentTask a1) (Suc i + j) (steps ! j)))"
      by (simp add: task1)
  qed
  from Cons.IH [OF this, of "tr @ [Snapshot i, Dispatch i dec r cs]"]
  obtain tr' a' where res:
    "planLoop e a1 (Suc i) steps (tr @ [Snapshot i, Dispatch i dec r cs]) = Return (None, tr', a')"
    "attempts tr' = attempts (tr @ [Snapshot i, Dispatch i dec r cs]) @ [Suc i..<Suc i + length steps]"
    "dispatched tr' = dispatched (tr @ [Snapshot i, Dispatch i dec r cs]) @
       map (\<lambda>j. (Suc i + j, fst (stepDecision e (currentTask a1) (Suc i + j) (steps ! j))))
         [0..<length steps]"
    by blast
  have att: "attempts tr' = attempts tr @ [i..<i + length (step # steps)]"
    using res(2) by (simp add: upt_conv_Cons del: upt_Suc)
  have "map (\<lambda>j. (i + j, fst (stepDecision e (currentTask a) (i + j) ((step # steps) ! j))))
          [0..<length (step # steps)] =
        (i, dec) # map (\<lambda>j. (Suc i + j, fst (stepDecision e (currentTask a) (Suc i + j) (steps ! j))))
          [0..<length steps]"
    by (simp add: upt_rec [of 0] map_Suc_upt [symmetric] dec_def del: upt_Suc)
  then have dis: "dispatched tr' = dispatched tr @
       map (\<lambda>j. (i + j, fst (stepDecision e (currentTask a) (i + j) ((step # steps) ! j))))
         [0..<length (step # steps)]"
    using res(3) by (simp add: task1)
  show ?case using step res(1) att dis by simp
qed

lemma quietDriver_registry_inv: "registry_inv (registry quietDriver)"
  by (simp add: quietDriver_def NewManager_def rebuildPageTracking_inv')

lemma stripFence_wait: \<open>stripFence ''{"action":"wait"}'' = ''{"action":"wait"}''\<close>
  by (simp add: stripFence_def TrimSpace_def isSpace_def HasPrefix_def)

lemma stripFence_no_idea: "stripFence ''no idea'' = ''no idea''"
  by (simp add: stripFence_def TrimSpace_def isSpace_def HasPrefix_def)

lemma stripFence_click:
  \<open>stripFence ''{"action":"click","selector":"#menu"}'' =
     ''{"action":"click","selector":"#menu"}''\<close>
  by (simp add: stripFence_def TrimSpace_def isSpace_def HasPrefix_def)

lemma stuckDriver_alive:
  "ensureBrowser (registry stuckDriver) (probeOK stuckDriver) (recover stuckDriver) =
     (NewManager tabA [], None)"
  using quietDriver_alive by (simp add: stuckDriver_def)

lemma quietDriver_wait:
  "executeAction quietDriver ask waitDecision = Return (None, [], NewManager tabA [])"
  by (simp add: executeAction_def dispatch_def waitDecision_def emptyDecision_def
      quietDriver_def)

lemma stuckDriver_wait:
  "executeAction stuckDriver ask waitDecision = Return (None, [], NewManager tabA [])"
  by (simp add: executeAction_def dispatch_def waitDecision_def emptyDecision_def
      stuckDriver_def quietDriver_def)

lemma stuckDriver_click:
  "executeAction stuckDriver ask clickDecision =
     Return (Some ''failed to click element: Timeout 30000ms exceeded'',
             [CallClick ''#menu''], NewManager tabA [])"
proof -
  have "\<not> pageClosed ''Timeout 30000ms exceeded''"
    by (simp add: pageClosed_def HasPrefix_def)
  moreover have "clickErr stuckDriver s = Some ''Timeout 30000ms exceeded''" for s
    by (simp add: stuckDriver_def)
  moreover have "notifications stuckDriver = []"
    by (simp add: stuckDriver_def quietDriver_def)
  ultimately show ?thesis
    by (simp add: executeAction_def dispatch_def clickDecision_def emptyDecision_def
        Click_def stuckDriver_alive)
qed

lemmas registry_defs =
  NewManager_def rebuildPageTracking_def emptyManager_def registerPage_def
  attachPageListeners_def setActivePage_def pageIdentifier_def handlePageClosed_def Let_def

lemma page_one_tab: "page (NewManager tabA []) = Some tabA"
  by (simp add: registry_defs)

lemma last_tab_closed: "page (handlePageClosed (NewManager tabA []) (Some tabA)) = None"
  by (simp add: registry_defs)

lemma page_two_tabs: "page (NewManager tabA [tabB]) = Some tabA"
  by (simp add: registry_defs tabA_def tabB_def)

lemma first_tab_closed:
  "page (handlePageClosed (NewManager tabA [tabB]) (Some tabA)) = Some tabB"
  by (simp add: registry_defs tabA_def tabB_def)

lemma quietDriver_settled:
  "WaitForNavigation (NewManager tabA []) quietDriver = Return None"
  by (simp add: WaitForNavigation_def page_one_tab quietDriver_def)

text \<open>
  The condition \<open>settles\<close> holds for every decision when the browser is alive (it has
  an active page and answers the liveness probe), the registry is a reachable one and
  no page is opened or closed during the action.
\<close>

lemma setActivePage_keeps_page:
  "page m = Some y \<Longrightarrow> \<exists>z. page (setActivePage m pid b) = Some z"
  by (simp add: setActivePage_def split: option.split)

lemma SwitchToPage_alive:
  assumes "registry_inv m" and "page m \<noteq> None" and "probe"
  shows "\<exists>m' e. SwitchToPage m probe r t = Return (m', e) \<and> page m' \<noteq> None"
proof -
  have eb: "ensureBrowser m probe r = (m, None)"
    using assms(2,3) by (simp add: ensureBrowser_def IsBrowserAlive_def)
  obtain m' e' where sw: "SwitchToPage m probe r t = Return (m', e')"
    using SwitchToPage_inv [OF assms(1)] by blast
  have "page m' \<noteq> None"
    using sw assms(2) unfolding SwitchToPage_def eb
    by (auto simp: Let_def setActivePage_keeps_page split: if_splits option.splits outcome.splits)
  with sw show ?thesis by blast
qed

lemma dispatch_alive:
  assumes "registry_inv (registry d)" and "page (registry d) \<noteq> None" and "probeOK d"
    and "notifications d = []"
  shows "\<exists>r cs m. dispatch d dec = Return (r, cs, m) \<and> page m \<noteq> None"
proof -
  have eb: "ensureBrowser (registry d) (probeOK d) (recover d) = (registry d, None)"
    using assms(2,3) by (simp add: ensureBrowser_def IsBrowserAlive_def)
  obtain p where p: "page (registry d) = Some p" using assms(2) by auto
  have "\<exists>w. WaitForNavigation (registry d) d = Return w"
    by (simp add: WaitForNavigation_def p split: option.split)
  then obtain w where w: "WaitForNavigation (registry d) d = Return w" ..
  have "fst (Navigate d (URL dec)) = registry d"
    by (simp add: Navigate_def eb assms(4) split: option.split)
  then obtain e1 where c1: "Navigate d (URL dec) = (registry d, e1)"
    by (cases "Navigate d (URL dec)") simp
  have "fst (Click d (Selector dec)) = registry d"
    by (simp add: Click_def eb assms(4) split: option.split)
  then obtain e2 where c2: "Click d (Selector dec) = (registry d, e2)"
    by (cases "Click d (Selector dec)") simp
  have "fst (Fill d (Selector dec) (Text dec)) = registry d"
    by (simp add: Fill_def eb assms(4) split: option.split)
  then obtain e3 where c3: "Fill d (Selector dec) (Text dec) = (registry d, e3)"
    by (cases "Fill d (Selector dec) (Text dec)") simp
  have "fst (Focus d (Selector dec)) = registry d"
    by (simp add: Focus_def eb assms(4) split: option.split)
  then obtain e4 where c4: "Focus d (Selector dec) = (registry d, e4)"
    by (cases "Focus d (Selector dec)") simp
  have "fst (TypeText d (Selector dec) (Text dec)) = registry d"
    by (simp add: TypeText_def eb assms(4) split: option.split)
  then obtain e5 where c5: "TypeText d (Selector dec) (Text dec) = (registry d, e5)"
    by (cases "TypeText d (Selector dec) (Text dec)") simp
  have "fst (PressKey d (Text dec)) = registry d"
    by (simp add: PressKey_def eb assms(4) split: option.split)
  then obtain e6 where c6: "PressKey d (Text dec) = (registry d, e6)"
    by (cases "PressKey d (Text dec)") simp
  define target where "target = (if Text dec = [] then URL dec else Text dec)"
  obtain m7 e7 where c7:
    "SwitchToPage (registry d) (probeOK d) (recover d) target = Return (m7, e7)"
    "page m7 \<noteq> None"
    using SwitchToPage_alive [OF assms(1,2,3)] by blast
  obtain p7 where p7: "page m7 = Some p7" using c7(2) by auto
  show ?thesis
    unfolding dispatch_def Let_def target_def [symmetric] c1 c2 c3 c4 c5 c6 c7(1)
    by (cases e1; cases e2) (simp_all add: w p assms(4) p7)
qed

lemma settles_alive:
  assumes "registry_inv (registry d)" and "page (registry d) \<noteq> None" and "probeOK d"
    and "notifications d = []"
  shows "settles d ask dec"
proof -
  obtain r cs m where "dispatch d dec = Return (r, cs, m)" "page m \<noteq> None"
    using dispatch_alive [OF assms] by blast
  then show ?thesis
    by (cases r) (auto simp: settles_def executeAction_def split: prod.split option.split)
qed

text \<open>
  Without an active page the plan loop does not get past a successful step: the
  oracle answers \<open>wait\<close>, the only tab is closed before the action is dispatched, and
  the \<^verbatim>\<open>WaitForNavigation\<close> that follows the step calls a method of the \<^verbatim>\<open>nil\<close> page.
\<close>

lemma plan_step_on_closed_tab_panics:
  "executeAction lastTabDriver ask waitDecision =
     Return (None, [], handlePageClosed (NewManager tabA []) (Some tabA))
   \<and> page (handlePageClosed (NewManager tabA []) (Some tabA)) = None
   \<and> \<not> settles lastTabDriver ask waitDecision
   \<and> ExecuteTask (flakyEnv\<lparr>actDrv := (\<lambda>i. lastTabDriver)\<rparr>) (NewAgent False)
       ''order a pizza'' [] = Some Panic"
proof -
  define e where "e = flakyEnv\<lparr>actDrv := (\<lambda>i. lastTabDriver)\<rparr>"
  have ex: "executeAction lastTabDriver ask waitDecision =
     Return (None, [], handlePageClosed (NewManager tabA []) (Some tabA))" for ask
    by (simp add: executeAction_def dispatch_def waitDecision_def emptyDecision_def
        lastTabDriver_def quietDriver_def)
  have md0: "MakeDecision (reply e 0) (decode e) sp ui = (waitDecision, None)" for sp ui
    by (simp add: MakeDecision_def e_def flakyEnv_def stripFence_wait)
  have sel: "snapDrv e i = quietDriver" "actDrv e i = lastTabDriver"
    "planDrv e = quietDriver" "captchaWait e i = None" "startDrv e = quietDriver"
    "planTask e t p = Inr [''open the menu'', ''click the first entry'', ''read the price'']"
    for i t p
    by (simp_all add: e_def flakyEnv_def quietEnv_def)
  have wt: "WaitForNavigation (handlePageClosed (NewManager tabA []) (Some tabA)) d = Panic"
    for d
    by (simp add: WaitForNavigation_def last_tab_closed)
  have "ExecuteTask e (NewAgent False) ''order a pizza'' [] = Some Panic"
    by (simp add: ExecuteTask_def Let_def sel quietDriver_snapshot empty_page_not_blocked
        md0 ex wt)
  then show ?thesis
    using ex last_tab_closed by (simp add: settles_def e_def)
qed




lemma makeRoom_Some_room:
  assumes "makeRoom cm needed = Some cm'"
  shows "CanAddTokens (tokenCounter cm) needed"
  using assms
proof (rule makeRoom.raw_induct
    [where P = "\<lambda>cm needed y. CanAddTokens (tokenCounter cm) needed", rotated])
  fix f cm needed cma
  assume ih: "\<And>c n y. f c n = Some y \<Longrightarrow> CanAddTokens (tokenCounter c) n"
    and eq: "(if CanAddTokens (tokenCounter cm) needed then Some cm
              else f (RemoveOldest cm 1) needed) = Some cma"
  show "CanAddTokens (tokenCounter cm) needed"
  proof (rule ccontr)
    assume no: "\<not> CanAddTokens (tokenCounter cm) needed"
    with eq have "f (RemoveOldest cm 1) needed = Some cma" by simp
    from ih [OF this] no show False by simp
  qed
qed

lemma makeRoom_no_room:
  "\<not> CanAddTokens (tokenCounter cm) needed \<Longrightarrow> makeRoom cm needed = None"
  using makeRoom_Some_room by (cases "makeRoom cm needed") auto

lemma EstimateTokens_nonneg [simp]: "0 \<le> EstimateTokens s"
  by (simp add: EstimateTokens_def)

lemma Add_in_budget:
  assumes "0 \<le> PromptTokens tc" "0 \<le> CompletionTokens tc"
    and "TotalTokens tc = PromptTokens tc + CompletionTokens tc"
    and "0 \<le> p" "0 \<le> c"
    and "TotalTokens tc + p + c \<le> MaxTokens tc" "MaxTokens tc < 2 ^ 63"
  shows "Add tc p c =
           (tc\<lparr>PromptTokens := PromptTokens tc + p,
               CompletionTokens := CompletionTokens tc + c,
               TotalTokens := TotalTokens tc + p + c\<rparr>, None)"
proof -
  have "wrap64 (PromptTokens tc + p) = PromptTokens tc + p"
    using assms by (intro wrap64_id) auto
  moreover have "wrap64 (CompletionTokens tc + c) = CompletionTokens tc + c"
    using assms by (intro wrap64_id) auto
  moreover have "wrap64 (PromptTokens tc + p + (CompletionTokens tc + c)) =
                 TotalTokens tc + p + c"
    using assms by (subst wrap64_id) auto
  ultimately show ?thesis
    using assms(6) by (simp add: Add_def Let_def)
qed

lemma analyzeAndDecide_ok:
  assumes pc: "pc = fst (GetPageContent (snapDrv e i))"
    and cons: "0 \<le> PromptTokens (tokenCounter (contextMgr a))"
      "0 \<le> CompletionTokens (tokenCounter (contextMgr a))"
      "TotalTokens (tokenCounter (contextMgr a)) =
         PromptTokens (tokenCounter (contextMgr a)) +
         CompletionTokens (tokenCounter (contextMgr a))"
    and room: "TotalTokens (tokenCounter (contextMgr a)) + iterTokens e (currentTask a) i + 400
                 \<le> MaxTokens (tokenCounter (contextMgr a))"
    and rng: "MaxTokens (tokenCounter (contextMgr a)) < 2 ^ 63"
  shows "\<exists>a1 dec.
           analyzeAndDecide e i a pc = Some (a1, dec, None) \<and>
           currentTask a1 = currentTask a \<and> maxIterations a1 = maxIterations a \<and>
           (IsComplete dec \<longrightarrow> IsComplete (fst (iterDecision e (currentTask a) i))) \<and>
           (snd (iterDecision e (currentTask a) i) = None \<longrightarrow>
              dec = fst (iterDecision e (currentTask a) i)) \<and>
           tokenCounter (contextMgr a1) =
             (if snd (iterDecision e (currentTask a) i) = None
              then (tokenCounter (contextMgr a))
                     \<lparr>PromptTokens := PromptTokens (tokenCounter (contextMgr a)) +
                        (EstimateTokens iterSystemPrompt +
                         EstimateTokens (iterPrompt e (currentTask a) i)),
                      CompletionTokens := CompletionTokens (tokenCounter (contextMgr a)) +
                        EstimateTokens (Reasoning (fst (iterDecision e (currentTask a) i))),
                      TotalTokens := TotalTokens (tokenCounter (contextMgr a)) +
                        iterTokens e (currentTask a) i\<rparr>
              else tokenCounter (contextMgr a))"
proof -
  define tc where "tc = tokenCounter (contextMgr a)"
  define ui where "ui = iterPrompt e (currentTask a) i"
  define P where "P = EstimateTokens iterSystemPrompt + EstimateTokens ui"
  define md where "md = iterDecision e (currentTask a) i"
  define C where "C = EstimateTokens (Reasoning (fst md))"
  define cm1 where
    "cm1 = AddMessage (AddMessage (contextMgr a) ''system'' iterSystemPrompt) ''user'' ui"
  have ui: "iterUserInput (currentTask a)
              (buildPageDescription pc (ListOpenPages (registry (snapDrv e i)))) = ui"
    by (simp add: ui_def iterPrompt_def pc)
  have mdeq: "MakeDecision (reply e i) (decode e) iterSystemPrompt ui = md"
    by (simp add: md_def iterDecision_def ui_def)
  have it: "iterTokens e (currentTask a) i = P + C"
    by (simp add: iterTokens_def P_def C_def ui_def md_def)
  have nn: "0 \<le> P" "0 \<le> C" by (simp_all add: P_def C_def)
  have tot: "0 \<le> TotalTokens tc" using cons by (simp add: tc_def)
  have room': "TotalTokens tc + P + C + 400 \<le> MaxTokens tc"
    using room by (simp add: it tc_def)
  have "wrap64 (TotalTokens tc + (P + 400)) = TotalTokens tc + (P + 400)"
    using nn tot room' rng by (intro wrap64_id) (auto simp: tc_def)
  then have can: "CanAddTokens (tokenCounter cm1) (P + 400)"
    using room' nn by (simp add: CanAddTokens_def cm1_def tc_def [symmetric])
  have mr: "makeRoom cm1 (P + 400) = Some cm1"
    using can by (rule makeRoom_room)
  show ?thesis
  proof (cases "snd md")
    case (Some err)
    then have md': "md = (fst md, Some err)" by (simp add: prod_eq_iff)
    have "analyzeAndDecide e i a pc =
            Some (a\<lparr>contextMgr := cm1\<rparr>,
                  emptyDecision\<lparr>Action := ''error'', Reasoning := err, IsComplete := False\<rparr>, None)"
      unfolding analyzeAndDecide_def Let_def ui cm1_def [symmetric] P_def [symmetric] mdeq
      by (subst md') (simp add: mr)
    then show ?thesis
      using Some by (simp add: md_def [symmetric] cm1_def)
  next
    case None
    then have md': "md = (fst md, None)" by (simp add: prod_eq_iff)
    define cm3 where "cm3 = AddMessage cm1 ''assistant''
                              (if Reasoning (fst md) \<noteq> [] then Reasoning (fst md)
                               else encode e (fst md))"
    have tc3: "tokenCounter cm3 = tc" "tokenCounter cm1 = tc"
      by (simp_all add: cm3_def cm1_def tc_def)
    have add: "Add tc P C =
           (tc\<lparr>PromptTokens := PromptTokens tc + P,
               CompletionTokens := CompletionTokens tc + C,
               TotalTokens := TotalTokens tc + P + C\<rparr>, None)"
      using cons nn room' rng by (intro Add_in_budget) (auto simp: tc_def)
    have "analyzeAndDecide e i a pc =
            Some (a\<lparr>contextMgr := cm3\<lparr>tokenCounter :=
                      tc\<lparr>PromptTokens := PromptTokens tc + P,
                         CompletionTokens := CompletionTokens tc + C,
                         TotalTokens := TotalTokens tc + P + C\<rparr>\<rparr>\<rparr>, fst md, None)"
      unfolding analyzeAndDecide_def Let_def ui cm1_def [symmetric] P_def [symmetric] mdeq
      by (subst md') (simp add: mr cm3_def [symmetric] tc3 C_def [symmetric] add)
    then show ?thesis
      using None by (simp add: md_def [symmetric] tc_def [symmetric] it P_def C_def ui_def)
  qed
qed

lemma iterTokens_nonneg: "0 \<le> iterTokens e task i"
  by (simp add: iterTokens_def)

lemma EstimateTokens_iterSystemPrompt: "EstimateTokens iterSystemPrompt = 251"
  by (simp add: EstimateTokens_def length_iterSystemPrompt)

lemma quietEnv_fields:
  "snapDrv quietEnv i = quietDriver" "actDrv quietEnv i = quietDriver"
  "planDrv quietEnv = quietDriver" "startDrv quietEnv = quietDriver"
  "captchaWait quietEnv i = None" "decode quietEnv s = Inr waitDecision"
  "planTask quietEnv t p = Inl ''failed to call OpenAI for planning: timeout''"
  by (simp_all add: quietEnv_def)

lemma quietEnv_prompt_tokens:
  "EstimateTokens (iterPrompt quietEnv ''order a pizza'' i) = 164"
proof -
  have "registry quietDriver = NewManager tabA []" by (simp add: quietDriver_def)
  then show ?thesis
    by (simp add: iterPrompt_def quietEnv_fields quietDriver_snapshot EstimateTokens_def
        length_iterUserInput length_empty_description)
qed

lemma quietEnv_decision: "iterDecision quietEnv task i = (waitDecision, None)"
  by (simp add: iterDecision_def MakeDecision_def quietEnv_def)

lemma quietEnv_tokens: "iterTokens quietEnv ''order a pizza'' i = 415"
  by (simp add: iterTokens_def EstimateTokens_iterSystemPrompt quietEnv_prompt_tokens
      quietEnv_decision)
    (simp add: EstimateTokens_def waitDecision_def emptyDecision_def)

lemma quietEnv_loop_hangs:
  assumes "currentTask a = ''order a pizza''"
    and "tokenCounter (contextMgr a) =
           \<lparr>PromptTokens = 415 * int i, CompletionTokens = 0, TotalTokens = 415 * int i,
            MaxTokens = 8000\<rparr>"
    and "i \<le> 18" and "18 < i + k"
  shows "fallbackLoop quietEnv k i a tr = None"
  using assms
proof (induction k arbitrary: i a tr)
  case 0
  then show ?case by simp
next
  case (Suc k)
  define pc0 where "pc0 = \<lparr>pcTitle = [], pcURL = [], Elements = [], MainText = []\<rparr>"
  have snap: "GetPageContent quietDriver = (pc0, None)" "\<not> isBlockedPage pc0"
    by (simp_all add: pc0_def quietDriver_snapshot empty_page_not_blocked)
  have pc: "pc0 = fst (GetPageContent (snapDrv quietEnv i))"
    by (simp add: quietEnv_fields snap)
  show ?case
  proof (cases "i = 18")
    case True
    have ui: "iterUserInput (currentTask a)
                (buildPageDescription pc0 (ListOpenPages (registry (snapDrv quietEnv i)))) =
              iterPrompt quietEnv ''order a pizza'' i"
      by (simp add: iterPrompt_def Suc.prems(1) quietEnv_fields snap)
    have "\<not> CanAddTokens (tokenCounter (contextMgr a)) (251 + 164 + 400)"
      using True by (simp add: CanAddTokens_def Suc.prems(2) wrap64_def)
    then have "makeRoom
       (AddMessage (AddMessage (contextMgr a) ''system'' iterSystemPrompt) ''user''
          (iterPrompt quietEnv ''order a pizza'' i)) (251 + 164 + 400) = None"
      by (intro makeRoom_no_room) simp
    then have "analyzeAndDecide quietEnv i a pc0 = None"
      unfolding analyzeAndDecide_def Let_def ui
        EstimateTokens_iterSystemPrompt quietEnv_prompt_tokens
      by simp
    then show ?thesis
      by (simp add: quietEnv_fields snap)
  next
    case False
    then have lt: "i < 18" using Suc.prems(3) by simp
    have cons: "0 \<le> PromptTokens (tokenCounter (contextMgr a))"
      "0 \<le> CompletionTokens (tokenCounter (contextMgr a))"
      "TotalTokens (tokenCounter (contextMgr a)) =
         PromptTokens (tokenCounter (contextMgr a)) +
         CompletionTokens (tokenCounter (contextMgr a))"
      by (simp_all add: Suc.prems(2))
    have room: "TotalTokens (tokenCounter (contextMgr a)) + iterTokens quietEnv (currentTask a) i
                  + 400 \<le> MaxTokens (tokenCounter (contextMgr a))"
      using lt by (simp add: Suc.prems(1) Suc.prems(2) quietEnv_tokens)
    have rng: "MaxTokens (tokenCounter (contextMgr a)) < 2 ^ 63"
      by (simp add: Suc.prems(2))
    from analyzeAndDecide_ok [OF pc cons room rng]
    obtain a1 dec where ad:
      "analyzeAndDecide quietEnv i a pc0 = Some (a1, dec, None)"
      "currentTask a1 = currentTask a"
      "maxIterations a1 = maxIterations a"
      "IsComplete dec \<longrightarrow> IsComplete (fst (iterDecision quietEnv (currentTask a) i))"
      "snd (iterDecision quietEnv (currentTask a) i) = None \<longrightarrow>
         dec = fst (iterDecision quietEnv (currentTask a) i)"
      "tokenCounter (contextMgr a1) =
             (if snd (iterDecision quietEnv (currentTask a) i) = None
              then (tokenCounter (contextMgr a))
                     \<lparr>PromptTokens := PromptTokens (tokenCounter (contextMgr a)) +
                        (EstimateTokens iterSystemPrompt +
                         EstimateTokens (iterPrompt quietEnv (currentTask a) i)),
                      CompletionTokens := CompletionTokens (tokenCounter (contextMgr a)) +
                        EstimateTokens (Reasoning (fst (iterDecision quietEnv (currentTask a) i))),
                      TotalTokens := TotalTokens (tokenCounter (contextMgr a)) +
                        iterTokens quietEnv (currentTask a) i\<rparr>
              else tokenCounter (contextMgr a))"
      by (elim exE conjE) (rule that)
    have dec: "dec = waitDecision" using ad(5) by (simp add: quietEnv_decision)
    have tc1: "tokenCounter (contextMgr a1) =
           \<lparr>PromptTokens = 415 * int (Suc i), CompletionTokens = 0,
            TotalTokens = 415 * int (Suc i), MaxTokens = 8000\<rparr>"
      unfolding ad(6)
      by (simp add: quietEnv_decision Suc.prems(1) Suc.prems(2) quietEnv_tokens
          EstimateTokens_iterSystemPrompt quietEnv_prompt_tokens)
        (simp add: EstimateTokens_def waitDecision_def emptyDecision_def)
    have tk: "currentTask a1 = ''order a pizza''" using ad(2) Suc.prems(1) by simp
    have step: "fallbackLoop quietEnv (Suc k) i a tr =
                fallbackLoop quietEnv k (Suc i) a1
                  (tr @ [Snapshot i, Dispatch i waitDecision None []])"
      using ad(1)
      by (simp add: quietEnv_fields snap dec quietDriver_wait)
        (simp add: waitDecision_def emptyDecision_def)
    have "Suc i \<le> 18" "18 < Suc i + k" using lt Suc.prems(4) by simp_all
    from Suc.IH [OF tk tc1 this] show ?thesis unfolding step .
  qed
qed

lemma quietEnv_never_returns:
  "ExecuteTask quietEnv (NewAgent False) ''order a pizza'' [] = None"
proof -
  define a0 where "a0 = (NewAgent False)\<lparr>currentTask := ''order a pizza'',
      contextMgr := ResetTokenCounter (ClearContext (contextMgr (NewAgent False)))\<rparr>"
  have run: "ExecuteTask quietEnv (NewAgent False) ''order a pizza'' [] =
             fallbackLoop quietEnv 20 0 a0 []"
    unfolding ExecuteTask_def Let_def a0_def [symmetric]
    by (simp add: quietEnv_fields quietDriver_snapshot) (simp add: a0_def NewAgent_def)
  have "fallbackLoop quietEnv 20 0 a0 [] = None"
    by (rule quietEnv_loop_hangs)
      (simp_all add: a0_def NewAgent_def NewContextManager_def NewTokenCounter_def
        ResetTokenCounter_def ClearContext_def)
  with run show ?thesis by simp
qed

text \<open>
  C2. The claim: the make-room loop of \<^verbatim>\<open>analyzeAndDecide\<close> terminates on every call,
  and a budget that cannot take the next prompt is reported as a failure of the
  task. \<^verbatim>\<open>RemoveOldest\<close> shortens the message list and leaves the token counter as it
  is, and \<^verbatim>\<open>CanAddTokens\<close> reads the counter only, so a loop that is entered without
  room never ends. With 7470 tokens used of 8000 and 815 needed the loop does not
  return, whether the history is empty or not. The agent of \<^verbatim>\<open>NewAgent\<close> reaches this
  state by itself: with a browser that shows an empty page and an oracle that answers
  every request with a well-formed decision to wait, each iteration accounts 415
  tokens, the 19th iteration finds no room, and \<^verbatim>\<open>ExecuteTask\<close> never returns.
\<close>

theorem C2_make_room_never_returns:
  "makeRoom \<lparr>messages = [], tokenCounter = \<lparr>PromptTokens = 7470, CompletionTokens = 0,
               TotalTokens = 7470, MaxTokens = 8000\<rparr>, maxHistorySize = 20\<rparr> 815 = None
   \<and> makeRoom \<lparr>messages = [\<lparr>Role = ''system'', Content = iterSystemPrompt\<rparr>,
                            \<lparr>Role = ''assistant'', Content = ''waiting''\<rparr>],
               tokenCounter = \<lparr>PromptTokens = 7470, CompletionTokens = 0,
               TotalTokens = 7470, MaxTokens = 8000\<rparr>, maxHistorySize = 20\<rparr> 815 = None
   \<and> ExecuteTask quietEnv (NewAgent False) ''order a pizza'' [] = None"
proof -
  have "makeRoom cm 815 = None"
    if "tokenCounter cm = \<lparr>PromptTokens = 7470, CompletionTokens = 0, TotalTokens = 7470,
                           MaxTokens = 8000\<rparr>" for cm
    by (rule makeRoom_no_room) (simp add: that CanAddTokens_def wrap64_def)
  then show ?thesis
    using quietEnv_never_returns by simp
qed

text \<open>
  C3. The claim: in the fallback mode, with the iteration cap of 20 and an oracle that
  never sets \<^verbatim>\<open>is_complete\<close>, \<^verbatim>\<open>ExecuteTask\<close> makes exactly 20 attempts and then returns
  the max-iterations failure. For the agent that \<^verbatim>\<open>NewAgent\<close> builds (cap 20, 8000
  tokens) this fails at the input of C2: planning fails, every page snapshot
  succeeds, the oracle answers every request with a well-formed decision to wait
  that is not complete, every iteration accounts 415 tokens, and the make-room loop
  of the 19th iteration never ends. \<^verbatim>\<open>ExecuteTask\<close> does not return, so it returns no
  max-iterations failure and the 20th attempt is never made.
\<close>

theorem C3_fallback_hangs_before_cap:
  "maxIterations (NewAgent False) = 20
   \<and> planTask quietEnv ''order a pizza''
       (buildPageDescription (fst (GetPageContent (planDrv quietEnv)))
          (ListOpenPages (registry (planDrv quietEnv)))) =
     Inl ''failed to call OpenAI for planning: timeout''
   \<and> (\<forall>i. GetPageContent (snapDrv quietEnv i) =
            (\<lparr>pcTitle = [], pcURL = [], Elements = [], MainText = []\<rparr>, None))
   \<and> (\<forall>i. iterDecision quietEnv ''order a pizza'' i = (waitDecision, None))
   \<and> \<not> IsComplete waitDecision
   \<and> (\<forall>i. iterTokens quietEnv ''order a pizza'' i = 415)
   \<and> ExecuteTask quietEnv (NewAgent False) ''order a pizza'' [] = None"
  using quietEnv_never_returns
  by (simp add: quietEnv_fields quietDriver_snapshot quietEnv_decision quietEnv_tokens
      NewAgent_def waitDecision_def emptyDecision_def)

lemma closingDriver_alive:
  "ensureBrowser (registry closingDriver) (probeOK closingDriver) (recover closingDriver) =
     (NewManager tabA [tabB], None)"
  by (simp add: ensureBrowser_def IsBrowserAlive_def closingDriver_def lastTabDriver_def
      quietDriver_def page_two_tabs)

lemma afterCommand_closingDriver:
  "afterCommand closingDriver = handlePageClosed (NewManager tabA [tabB]) (Some tabA)"
  by (simp add: afterCommand_def closingDriver_alive)
    (simp add: closingDriver_def lastTabDriver_def)




end
